theory Spec2Isabelle
  imports Complex_Main "HOL-Library.List_Lexorder" "HOL-Library.Char_ord" "HOL-Library.Multiset"
begin

section \<open>Conventions\<close>

text \<open>
  The theory embeds the search controller of retrospec:
  \<^verbatim>\<open>internal/scoring\<close> (technical similarity, realism combiner),
  \<^verbatim>\<open>internal/run\<close> (prompt validator, novelty, candidate pool, the iteration loop of
  \<^verbatim>\<open>Runner.Execute\<close>).

  \<^item> A Go \<^verbatim>\<open>string\<close> is a byte sequence: \<^typ>\<open>string\<close>. \<^verbatim>\<open>len\<close> is \<^const>\<open>length\<close>.
  \<^item> A Go \<^verbatim>\<open>int\<close> is \<^typ>\<open>int\<close>; the counters of this program (lines of a patch, iterations,
    retries) stay far below \<open>2 ^ 63\<close>.
  \<^item> A Go \<^verbatim>\<open>float64\<close> score is a \<^typ>\<open>real\<close>: the arithmetic is the exact one, rounding is
    not modelled.
  \<^item> A Go \<^verbatim>\<open>map[string]int\<close> is a map \<^typ>\<open>string \<rightharpoonup> int\<close>; \<^verbatim>\<open>len(m) == 0\<close> is
    \<open>dom m = {}\<close>, a lookup of a missing key gives the zero value.
  \<^item> A Go \<^verbatim>\<open>map[string]struct{}\<close> is a \<^typ>\<open>string set\<close> (always the set of a list here).
  \<^item> The external collaborators (the agent, git, the test runner, the file system) are
    an explicit environment: their answers are arguments of the model.
\<close>

section \<open>The Go string library, on bytes\<close>

definition HasPrefix :: "string \<Rightarrow> string \<Rightarrow> bool" where
  "HasPrefix s p = (take (length p) s = p)"

definition TrimPrefix :: "string \<Rightarrow> string \<Rightarrow> string" where
  "TrimPrefix s p = (if HasPrefix s p then drop (length p) s else s)"

text \<open>\<^verbatim>\<open>strings.Contains(s, sub)\<close>: \<open>sub\<close> is a prefix of some suffix of \<open>s\<close>.\<close>

fun Contains :: "string \<Rightarrow> string \<Rightarrow> bool" where
  "Contains [] sub = (sub = [])"
| "Contains (c # s) sub = (HasPrefix (c # s) sub \<or> Contains s sub)"

text \<open>\<^verbatim>\<open>strings.Split(s, sep)\<close> for a separator of one byte (the program splits at
  \<^verbatim>\<open>"\n"\<close> and at \<^verbatim>\<open>" "\<close> only). The result is never empty.\<close>

fun Split :: "string \<Rightarrow> char \<Rightarrow> string list" where
  "Split [] sep = [[]]"
| "Split (c # s) sep =
     (if c = sep then [] # Split s sep
      else (case Split s sep of [] \<Rightarrow> [[c]] | w # ws \<Rightarrow> (c # w) # ws))"

text \<open>\<^verbatim>\<open>strings.TrimLeft\<close>, \<^verbatim>\<open>TrimRight\<close> and \<^verbatim>\<open>Trim\<close> with an ASCII cut set work
  byte by byte.\<close>

definition TrimLeft :: "string \<Rightarrow> string \<Rightarrow> string" where
  "TrimLeft s cutset = dropWhile (\<lambda>c. c \<in> set cutset) s"

definition TrimRight :: "string \<Rightarrow> string \<Rightarrow> string" where
  "TrimRight s cutset = rev (dropWhile (\<lambda>c. c \<in> set cutset) (rev s))"

definition Trim :: "string \<Rightarrow> string \<Rightarrow> string" where
  "Trim s cutset = TrimRight (TrimLeft s cutset) cutset"

text \<open>
  \<^verbatim>\<open>unicode.IsSpace\<close> holds of the runes U+0009..U+000D, U+0020, U+0085, U+00A0, U+1680,
  U+2000..U+200A, U+2028, U+2029, U+202F, U+205F and U+3000. \<open>spaceWidth s\<close> is the
  number of bytes of the white space rune that \<open>s\<close> starts with in UTF-8, and \<open>0\<close> when
  \<open>s\<close> starts with none. Every such encoding starts with an ASCII byte or a lead byte,
  which the decoder never reads as the inside of another rune, so the bytes decide.
\<close>

definition asciiSpace :: "char \<Rightarrow> bool" where
  "asciiSpace c = (c \<in> set [CHR 0x09, CHR 0x0A, CHR 0x0B, CHR 0x0C, CHR 0x0D, CHR 0x20])"

fun spaceWidth :: "string \<Rightarrow> nat" where
  "spaceWidth [] = 0"
| "spaceWidth (a # s) =
     (if asciiSpace a then 1
      else if a = CHR 0xC2 then
        (case s of b # _ \<Rightarrow> if b = CHR 0x85 \<or> b = CHR 0xA0 then 2 else 0 | [] \<Rightarrow> 0)
      else if a = CHR 0xE1 then
        (case s of b # c # _ \<Rightarrow> if b = CHR 0x9A \<and> c = CHR 0x80 then 3 else 0 | _ \<Rightarrow> 0)
      else if a = CHR 0xE2 then
        (case s of b # c # _ \<Rightarrow>
           if b = CHR 0x80 \<and>
              ((0x80 \<le> (of_char c :: nat) \<and> (of_char c :: nat) \<le> 0x8A) \<or>
               c = CHR 0xA8 \<or> c = CHR 0xA9 \<or> c = CHR 0xAF) then 3
           else if b = CHR 0x81 \<and> c = CHR 0x9F then 3 else 0
         | _ \<Rightarrow> 0)
      else if a = CHR 0xE3 then
        (case s of b # c # _ \<Rightarrow> if b = CHR 0x80 \<and> c = CHR 0x80 then 3 else 0 | _ \<Rightarrow> 0)
      else 0)"

lemma spaceWidth_le: "spaceWidth s \<le> length s"
  by (cases s) (auto split: list.splits)

text \<open>\<open>trimSpaceLeft\<close> drops the leading white space runes.\<close>

fun trimSpaceLeft :: "string \<Rightarrow> string" where
  "trimSpaceLeft [] = []"
| "trimSpaceLeft (c # s) =
     (if spaceWidth (c # s) = 0 then c # s
      else trimSpaceLeft (drop (spaceWidth (c # s)) (c # s)))"

text \<open>\<open>endSpaceWidth s\<close>: the width of the white space rune that \<open>s\<close> ends with
  (\<^verbatim>\<open>utf8.DecodeLastRuneInString\<close> finds the last lead byte within four bytes of the end
  and accepts the rune when it reaches the end exactly).\<close>

definition endSpaceWidth :: "string \<Rightarrow> nat" where
  "endSpaceWidth s =
     (let n = length s in
      if 1 \<le> n \<and> spaceWidth (drop (n - 1) s) = 1 then 1
      else if 2 \<le> n \<and> spaceWidth (drop (n - 2) s) = 2 then 2
      else if 3 \<le> n \<and> spaceWidth (drop (n - 3) s) = 3 then 3
      else 0)"

lemma endSpaceWidth_le: "endSpaceWidth s \<le> length s"
  by (simp add: endSpaceWidth_def Let_def)

function trimSpaceRight :: "string \<Rightarrow> string" where
  "trimSpaceRight s =
     (if endSpaceWidth s = 0 then s
      else trimSpaceRight (take (length s - endSpaceWidth s) s))"
  by pat_completeness auto
termination
proof (relation "measure length")
  show "wf (measure length)" by simp
next
  fix s :: string
  assume "endSpaceWidth s \<noteq> 0"
  moreover have "endSpaceWidth s \<le> length s" by (rule endSpaceWidth_le)
  ultimately show "(take (length s - endSpaceWidth s) s, s) \<in> measure length"
    by simp
qed

declare trimSpaceRight.simps [simp del]

definition TrimSpace :: "string \<Rightarrow> string" where
  "TrimSpace s = trimSpaceRight (trimSpaceLeft s)"

text \<open>\<^verbatim>\<open>strings.Fields\<close>: the maximal runs of bytes between white space runes.
  \<open>cur\<close> is the field being read, reversed.\<close>

fun fieldsLoop :: "string \<Rightarrow> string \<Rightarrow> string list" where
  "fieldsLoop [] cur = (if cur = [] then [] else [rev cur])"
| "fieldsLoop (c # rest) cur =
     (if spaceWidth (c # rest) = 0 then fieldsLoop rest (c # cur)
      else (if cur = [] then [] else [rev cur])
           @ fieldsLoop (drop (spaceWidth (c # rest)) (c # rest)) [])"

definition Fields :: "string \<Rightarrow> string list" where
  "Fields s = fieldsLoop s []"

text \<open>\<^verbatim>\<open>strings.Join\<close>.\<close>

fun Join :: "string list \<Rightarrow> string \<Rightarrow> string" where
  "Join [] sep = []"
| "Join [w] sep = w"
| "Join (w # ws) sep = w @ sep @ Join ws sep"

section \<open>internal/scoring: technical similarity\<close>

record FileStat =
  Path :: string
  Added :: int
  Removed :: int

record DiffSnapshot =
  Patch :: string
  ChangedFiles :: "string list"
  FileStats :: "string \<rightharpoonup> FileStat"

record PerFileScore =
  pfPath :: string
  Similarity :: real
  TargetLinesAdded :: int
  TargetLinesRemoved :: int
  ProducedLinesAdded :: int
  ProducedLinesRemoved :: int

record TechScore =
  FileJaccard :: real
  DiffSimilarity :: real
  LinePrecision :: real
  LineRecall :: real
  LineF1 :: real
  Score :: real
  PerFile :: "PerFileScore list"
  TargetFiles :: int
  ProducedFiles :: int
  TargetTotalAdds :: int
  TargetTotalDels :: int
  ProducedTotalAdds :: int
  ProducedTotalDels :: int

record parsedPatch =
  fileLines :: "string \<rightharpoonup> (string \<rightharpoonup> int)"
  global :: "string \<rightharpoonup> int"

text \<open>Reading a key of a \<^verbatim>\<open>map[string]int\<close>: the zero value when it is missing.\<close>

definition getCount :: "(string \<rightharpoonup> int) \<Rightarrow> string \<Rightarrow> int" where
  "getCount m k = (case m k of None \<Rightarrow> 0 | Some v \<Rightarrow> v)"

text \<open>Reading a key of the map of maps: the nil map, which reads as the empty one.\<close>

definition getLines :: "(string \<rightharpoonup> (string \<rightharpoonup> int)) \<Rightarrow> string \<Rightarrow> (string \<rightharpoonup> int)" where
  "getLines fl p = (case fl p of None \<Rightarrow> Map.empty | Some m \<Rightarrow> m)"

definition getStat :: "(string \<rightharpoonup> FileStat) \<Rightarrow> string \<Rightarrow> FileStat" where
  "getStat st p =
     (case st p of None \<Rightarrow> \<lparr>Path = [], Added = 0, Removed = 0\<rparr> | Some v \<Rightarrow> v)"

text \<open>\<^verbatim>\<open>m[key]++\<close>\<close>

definition incr :: "(string \<rightharpoonup> int) \<Rightarrow> string \<Rightarrow> (string \<rightharpoonup> int)" where
  "incr m k = m(k \<mapsto> getCount m k + 1)"

definition safeDiv :: "real \<Rightarrow> real \<Rightarrow> real" where
  "safeDiv a b = (if b = 0 then (if a = 0 then 1 else 0) else a / b)"

definition clamp01 :: "real \<Rightarrow> real" where
  "clamp01 v = max 0 (min 1 v)"

definition minInt :: "int \<Rightarrow> int \<Rightarrow> int" where
  "minInt a b = (if a < b then a else b)"

definition maxInt :: "int \<Rightarrow> int \<Rightarrow> int" where
  "maxInt a b = (if a > b then a else b)"

definition normalizeLine :: "string \<Rightarrow> string" where
  "normalizeLine s = Join (Fields (TrimSpace s)) '' ''"

definition addDiffLine :: "parsedPatch \<Rightarrow> string \<Rightarrow> string \<Rightarrow> string \<Rightarrow> parsedPatch" where
  "addDiffLine p file pre raw =
     (let normalized = normalizeLine raw in
      if normalized = [] then p
      else
        (let key = pre @ normalized;
             p1 = p\<lparr>global := incr (global p) key\<rparr>
         in if file \<noteq> []
            then p1\<lparr>fileLines := (fileLines p1)(file \<mapsto> incr (getLines (fileLines p1) file) key)\<rparr>
            else p1))"

text \<open>The loop of \<^verbatim>\<open>parseUnifiedDiff\<close> over the lines of the patch; \<open>current\<close> is the file
  of the last \<^verbatim>\<open>diff --git\<close> header.\<close>

fun parseLoop :: "string list \<Rightarrow> string \<Rightarrow> parsedPatch \<Rightarrow> parsedPatch" where
  "parseLoop [] current result = result"
| "parseLoop (raw # rest) current result =
     (let line = TrimRight raw [CHR 0x0D] in
      if HasPrefix line ''diff --git '' then
        (let parts = Split line CHR '' '' in
         if length parts \<ge> 4 then
           (let cur = TrimPrefix (parts ! 3) ''b/'' in
            parseLoop rest cur
              (case fileLines result cur of
                 None \<Rightarrow> result\<lparr>fileLines := (fileLines result)(cur \<mapsto> Map.empty)\<rparr>
               | Some _ \<Rightarrow> result))
         else parseLoop rest current result)
      else if HasPrefix line ''+++ '' \<or> HasPrefix line ''--- '' \<or> HasPrefix line ''@@''
        then parseLoop rest current result
      else if HasPrefix line ''+'' \<and> \<not> HasPrefix line ''+++''
        then parseLoop rest current (addDiffLine result current ''+'' (drop 1 line))
      else if HasPrefix line ''-'' \<and> \<not> HasPrefix line ''---''
        then parseLoop rest current (addDiffLine result current ''-'' (drop 1 line))
      else parseLoop rest current result)"

definition parseUnifiedDiff :: "string \<Rightarrow> parsedPatch" where
  "parseUnifiedDiff patch =
     parseLoop (Split patch (CHR 0x0A)) [] \<lparr>fileLines = Map.empty, global = Map.empty\<rparr>"

definition weightedJaccard :: "(string \<rightharpoonup> int) \<Rightarrow> (string \<rightharpoonup> int) \<Rightarrow> real" where
  "weightedJaccard a b =
     (if dom a = {} \<and> dom b = {} then 1
      else
        (let unionKeys = dom a \<union> dom b;
             inter = (\<Sum>k \<in> unionKeys. minInt (getCount a k) (getCount b k));
             uni = (\<Sum>k \<in> unionKeys. maxInt (getCount a k) (getCount b k))
         in safeDiv (real_of_int inter) (real_of_int uni)))"

definition multisetIntersectionCount :: "(string \<rightharpoonup> int) \<Rightarrow> (string \<rightharpoonup> int) \<Rightarrow> int" where
  "multisetIntersectionCount a b = (\<Sum>k \<in> dom a. minInt (getCount a k) (getCount b k))"

definition multisetCount :: "(string \<rightharpoonup> int) \<Rightarrow> int" where
  "multisetCount a = (\<Sum>k \<in> dom a. getCount a k)"

definition toSet :: "string list \<Rightarrow> string set" where
  "toSet items = set items"

definition jaccardSet :: "string set \<Rightarrow> string set \<Rightarrow> real" where
  "jaccardSet a b =
     (if a = {} \<and> b = {} then 1
      else
        (let inter = int (card {k \<in> a. k \<in> b});
             union = int (card a) + int (card b) - inter
         in safeDiv (real_of_int inter) (real_of_int union)))"

definition totalAddsRemoves :: "(string \<rightharpoonup> FileStat) \<Rightarrow> int \<times> int" where
  "totalAddsRemoves stats =
     ((\<Sum>k \<in> dom stats. Added (getStat stats k)), (\<Sum>k \<in> dom stats. Removed (getStat stats k)))"

definition buildPerFileScores ::
  "DiffSnapshot \<Rightarrow> DiffSnapshot \<Rightarrow> parsedPatch \<Rightarrow> parsedPatch \<Rightarrow> PerFileScore list" where
  "buildPerFileScores target produced targetParsed producedParsed =
     (let pathsSet = set (ChangedFiles target) \<union> set (ChangedFiles produced);
          paths = sorted_list_of_set pathsSet
      in map (\<lambda>p.
           (let tLines = getLines (fileLines targetParsed) p;
                pLines = getLines (fileLines producedParsed) p;
                sim = weightedJaccard tLines pLines;
                t = getStat (FileStats target) p;
                pr = getStat (FileStats produced) p
            in \<lparr>pfPath = p, Similarity = sim,
                TargetLinesAdded = Added t, TargetLinesRemoved = Removed t,
                ProducedLinesAdded = Added pr, ProducedLinesRemoved = Removed pr\<rparr>)) paths)"

definition ScoreTechSimilarity :: "DiffSnapshot \<Rightarrow> DiffSnapshot \<Rightarrow> TechScore" where
  "ScoreTechSimilarity target produced =
     (let targetSet = toSet (ChangedFiles target);
          producedSet = toSet (ChangedFiles produced);
          fileJaccard = jaccardSet targetSet producedSet;
          targetParsed = parseUnifiedDiff (Patch target);
          producedParsed = parseUnifiedDiff (Patch produced);
          diffSimilarity = weightedJaccard (global targetParsed) (global producedParsed);
          tp = multisetIntersectionCount (global targetParsed) (global producedParsed);
          targetN = multisetCount (global targetParsed);
          producedN = multisetCount (global producedParsed);
          precision = safeDiv (real_of_int tp) (real_of_int producedN);
          recall = safeDiv (real_of_int tp) (real_of_int targetN);
          f1 = safeDiv (2 * precision * recall) (precision + recall);
          perFile = buildPerFileScores target produced targetParsed producedParsed;
          tTot = totalAddsRemoves (FileStats target);
          pTot = totalAddsRemoves (FileStats produced);
          final = clamp01 (0.4 * fileJaccard + 0.45 * diffSimilarity + 0.15 * f1)
      in \<lparr>FileJaccard = fileJaccard, DiffSimilarity = diffSimilarity,
          LinePrecision = precision, LineRecall = recall, LineF1 = f1, Score = final,
          PerFile = perFile,
          TargetFiles = int (card targetSet), ProducedFiles = int (card producedSet),
          TargetTotalAdds = fst tTot, TargetTotalDels = snd tTot,
          ProducedTotalAdds = fst pTot, ProducedTotalDels = snd pTot\<rparr>)"

section \<open>internal/run: novelty of a candidate prompt\<close>

text \<open>
  \<^verbatim>\<open>strings.ToLower\<close> maps \<^verbatim>\<open>A..Z\<close> to \<^verbatim>\<open>a..z\<close> when the string is ASCII. On a string with a
  byte from \<open>0x80\<close> on it maps every rune through the Unicode case tables of the Go
  library, which are not part of the repository: there the result is \<open>U s\<close>, for a
  parameter \<open>U\<close> that every theorem below leaves arbitrary.
\<close>

definition isASCII :: "string \<Rightarrow> bool" where
  "isASCII s = list_all (\<lambda>c. (of_char c :: nat) < 128) s"

definition lowerByte :: "char \<Rightarrow> char" where
  "lowerByte c =
     (if CHR ''A'' \<le> c \<and> c \<le> CHR ''Z'' then char_of (of_char c + (32::nat)) else c)"

definition ToLower :: "(string \<Rightarrow> string) \<Rightarrow> string \<Rightarrow> string" where
  "ToLower U s = (if isASCII s then map lowerByte s else U s)"

text \<open>\<^verbatim>\<open>clamp01\<close> of package \<^verbatim>\<open>run\<close> (package \<^verbatim>\<open>scoring\<close> has its own, above).\<close>

definition run_clamp01 :: "real \<Rightarrow> real" where
  "run_clamp01 v = (if v < 0 then 0 else if v > 1 then 1 else v)"

text \<open>The cut set of \<^verbatim>\<open>toTokenSet\<close>: space, tab, line feed, carriage return and
  \<^verbatim>\<open>.,;:!?()[]{}"'\<close> and the back quote.\<close>

definition tokenCutset :: string where
  "tokenCutset =
     [CHR 0x20, CHR 0x09, CHR 0x0A, CHR 0x0D] @ ''.,;:!?()[]{}'' @ [CHR 0x22, CHR 0x27, CHR 0x60]"

fun tokenLoop :: "string list \<Rightarrow> string set \<Rightarrow> string set" where
  "tokenLoop [] out = out"
| "tokenLoop (tok # rest) out =
     (let tok' = Trim tok tokenCutset in
      if length tok' < 4 then tokenLoop rest out
      else tokenLoop rest (insert tok' out))"

definition toTokenSet :: "(string \<Rightarrow> string) \<Rightarrow> string \<Rightarrow> string set" where
  "toTokenSet U s = tokenLoop (Fields (ToLower U s)) {}"

definition jaccardTokens :: "string set \<Rightarrow> string set \<Rightarrow> real" where
  "jaccardTokens a b =
     (if a = {} \<and> b = {} then 1
      else
        (let inter = int (card {k \<in> a. k \<in> b});
             union = int (card a) + int (card b) - inter
         in if union = 0 then 0 else real_of_int inter / real_of_int union))"

text \<open>The loop of \<^verbatim>\<open>noveltyScore\<close> over the history.\<close>

fun similarityLoop ::
  "(string \<Rightarrow> string) \<Rightarrow> string set \<Rightarrow> string list \<Rightarrow> real \<Rightarrow> real" where
  "similarityLoop U candTokens [] bestSimilarity = bestSimilarity"
| "similarityLoop U candTokens (h # rest) bestSimilarity =
     (let sim = jaccardTokens candTokens (toTokenSet U h) in
      similarityLoop U candTokens rest (if sim > bestSimilarity then sim else bestSimilarity))"

definition noveltyScore :: "(string \<Rightarrow> string) \<Rightarrow> string \<Rightarrow> string list \<Rightarrow> real" where
  "noveltyScore U candidate history =
     (if length history = 0 then 1
      else run_clamp01 (1 - similarityLoop U (toTokenSet U candidate) history 0))"

section \<open>Regular expressions of the validator\<close>

text \<open>
  The validator uses Go regular expressions (RE2 syntax, Perl priorities). They are
  values of the type \<open>re\<close>; \<open>rmatch r (p, s)\<close> lists, best first, the positions where a
  match of \<open>r\<close> that starts in front of \<open>s\<close> can end. A position is the byte before it
  (\<open>None\<close> at the start of the text) and the rest of the text. The classes \<^verbatim>\<open>\s\<close>,
  \<^verbatim>\<open>\d\<close>, \<^verbatim>\<open>\w\<close> and \<^verbatim>\<open>\b\<close> are ASCII ones in RE2, and a byte from \<open>0x80\<close> on is in every
  negated class of these patterns, so matching byte by byte finds the matches Go finds
  rune by rune. Repetition only occurs on byte classes in the patterns of the program.
\<close>

datatype cls = In "char list" | NotIn "char list"

fun inCls :: "cls \<Rightarrow> char \<Rightarrow> bool" where
  "inCls (In cs) c = (c \<in> set cs)"
| "inCls (NotIn cs) c = (c \<notin> set cs)"

datatype re =
    Eps
  | One cls
  | Many cls
  | ManyLazy cls
  | Seq re re
  | Alt re re
  | Bol
  | Bot
  | WordB

type_synonym pos = "char option \<times> string"

text \<open>\<^verbatim>\<open>x*\<close> on a byte class, the longest run first.\<close>

fun many :: "cls \<Rightarrow> char option \<Rightarrow> string \<Rightarrow> pos list" where
  "many k p [] = [(p, [])]"
| "many k p (c # s) = (if inCls k c then many k (Some c) s @ [(p, c # s)] else [(p, c # s)])"

text \<open>\<^verbatim>\<open>x*?\<close> on a byte class, the shortest run first.\<close>

fun manyLazy :: "cls \<Rightarrow> char option \<Rightarrow> string \<Rightarrow> pos list" where
  "manyLazy k p [] = [(p, [])]"
| "manyLazy k p (c # s) = (p, c # s) # (if inCls k c then manyLazy k (Some c) s else [])"

definition wordBytes :: string where
  "wordBytes = ''0123456789ABCDEFGHIJKLMNOPQRSTUVWXYZ_abcdefghijklmnopqrstuvwxyz''"

definition isWordByte :: "char \<Rightarrow> bool" where
  "isWordByte c = (c \<in> set wordBytes)"

definition wordBoundary :: "char option \<Rightarrow> string \<Rightarrow> bool" where
  "wordBoundary p s =
     ((case p of None \<Rightarrow> False | Some c \<Rightarrow> isWordByte c)
        \<noteq> (case s of [] \<Rightarrow> False | c # _ \<Rightarrow> isWordByte c))"

fun rmatch :: "re \<Rightarrow> pos \<Rightarrow> pos list" where
  "rmatch Eps st = [st]"
| "rmatch (One k) (p, s) =
     (case s of [] \<Rightarrow> [] | c # cs \<Rightarrow> if inCls k c then [(Some c, cs)] else [])"
| "rmatch (Many k) (p, s) = many k p s"
| "rmatch (ManyLazy k) (p, s) = manyLazy k p s"
| "rmatch (Seq a b) st = concat (map (rmatch b) (rmatch a st))"
| "rmatch (Alt a b) st = rmatch a st @ rmatch b st"
| "rmatch Bol (p, s) = (if p = None \<or> p = Some (CHR 0x0A) then [(p, s)] else [])"
| "rmatch Bot (p, s) = (if p = None then [(p, s)] else [])"
| "rmatch WordB (p, s) = (if wordBoundary p s then [(p, s)] else [])"

text \<open>\<^verbatim>\<open>MatchString\<close>: some match starts at some position of the text.\<close>

fun searchFrom :: "re \<Rightarrow> char option \<Rightarrow> string \<Rightarrow> bool" where
  "searchFrom r p [] = (rmatch r (p, []) \<noteq> [])"
| "searchFrom r p (c # s) = (rmatch r (p, c # s) \<noteq> [] \<or> searchFrom r (Some c) s)"

definition MatchString :: "re \<Rightarrow> string \<Rightarrow> bool" where
  "MatchString r s = searchFrom r None s"

subsection \<open>The pattern syntax\<close>

fun lit :: "string \<Rightarrow> re" where
  "lit [] = Eps"
| "lit [c] = One (In [c])"
| "lit (c # cs) = Seq (One (In [c])) (lit cs)"

text \<open>A letter under the flag \<^verbatim>\<open>(?i)\<close> matches both cases, and \<^verbatim>\<open>k\<close> and \<^verbatim>\<open>s\<close> also match
  the runes that fold to them: the Kelvin sign U+212A and the long s U+017F.\<close>

definition upperByte :: "char \<Rightarrow> char" where
  "upperByte c =
     (if CHR ''a'' \<le> c \<and> c \<le> CHR ''z'' then char_of (of_char c - (32::nat)) else c)"

definition ciByte :: "char \<Rightarrow> re" where
  "ciByte c =
     (if c = CHR ''k'' then Alt (One (In ''kK'')) (lit [CHR 0xE2, CHR 0x84, CHR 0xAA])
      else if c = CHR ''s'' then Alt (One (In ''sS'')) (lit [CHR 0xC5, CHR 0xBF])
      else if CHR ''a'' \<le> c \<and> c \<le> CHR ''z'' then One (In [c, upperByte c])
      else One (In [c]))"

fun ci :: "string \<Rightarrow> re" where
  "ci [] = Eps"
| "ci [c] = ciByte c"
| "ci (c # cs) = Seq (ciByte c) (ci cs)"

fun seqs :: "re list \<Rightarrow> re" where
  "seqs [] = Eps"
| "seqs [r] = r"
| "seqs (r # rs) = Seq r (seqs rs)"

fun alts :: "re list \<Rightarrow> re" where
  "alts [] = Eps"
| "alts [r] = r"
| "alts (r # rs) = Alt r (alts rs)"

definition plus :: "cls \<Rightarrow> re" where
  "plus k = Seq (One k) (Many k)"

definition opt :: "re \<Rightarrow> re" where
  "opt r = Alt r Eps"

text \<open>\<^verbatim>\<open>\s\<close> is \<^verbatim>\<open>[\t\n\f\r ]\<close>, \<^verbatim>\<open>\S\<close> its complement, \<^verbatim>\<open>\d\<close> is \<^verbatim>\<open>[0-9]\<close>, \<^verbatim>\<open>.\<close> is every
  byte but the line feed.\<close>

definition reSpace :: cls where
  "reSpace = In [CHR 0x09, CHR 0x0A, CHR 0x0C, CHR 0x0D, CHR 0x20]"

definition reNotSpace :: cls where
  "reNotSpace = NotIn [CHR 0x09, CHR 0x0A, CHR 0x0C, CHR 0x0D, CHR 0x20]"

definition reDigit :: cls where
  "reDigit = In ''0123456789''"

definition reDot :: cls where
  "reDot = NotIn [CHR 0x0A]"

subsection \<open>The patterns\<close>

text \<open>\<^verbatim>\<open>(?mi)^\s*(?:\$\s*|git\s+\S+|go\s+(?:test|run|build|tool)\b|npm\s+\S+|npx\s+\S+|cargo\s+\S+|make\b|bash\b|sh\b)\<close>\<close>

definition commandLineRe :: re where
  "commandLineRe =
     seqs [Bol, Many reSpace,
       alts [Seq (lit ''$'') (Many reSpace),
             seqs [ci ''git'', plus reSpace, plus reNotSpace],
             seqs [ci ''go'', plus reSpace,
                   alts [ci ''test'', ci ''run'', ci ''build'', ci ''tool''], WordB],
             seqs [ci ''npm'', plus reSpace, plus reNotSpace],
             seqs [ci ''npx'', plus reSpace, plus reNotSpace],
             seqs [ci ''cargo'', plus reSpace, plus reNotSpace],
             Seq (ci ''make'') WordB,
             Seq (ci ''bash'') WordB,
             Seq (ci ''sh'') WordB]]"

text \<open>\<^verbatim>\<open>(?m)^(?:diff\s+--git|@@\s|\+\+\+\s|---\s)\<close>\<close>

definition diffMarkerRe :: re where
  "diffMarkerRe =
     Seq Bol
       (alts [seqs [lit ''diff'', plus reSpace, lit ''--git''],
              Seq (lit ''@@'') (One reSpace),
              Seq (lit ''+++'') (One reSpace),
              Seq (lit ''---'') (One reSpace)])"

text \<open>\<^verbatim>\<open>(?m)^\s*at\s+\S+\s+\(.+?:\d+\<close>\<close>

definition stackTraceRe :: re where
  "stackTraceRe =
     seqs [Bol, Many reSpace, lit ''at'', plus reSpace, plus reNotSpace, plus reSpace,
           lit ''('', One reDot, ManyLazy reDot, lit '':'', plus reDigit]"

text \<open>\<^verbatim>\<open>(?m)[A-Za-z0-9_./-]+:\d+(?::\d+)?:\s\<close>\<close>

definition pathBytes :: cls where
  "pathBytes = In (wordBytes @ ''./-'')"

definition compileErrRe :: re where
  "compileErrRe =
     seqs [plus pathBytes, lit '':'', plus reDigit, opt (Seq (lit '':'') (plus reDigit)),
           lit '':'', One reSpace]"

text \<open>\<^verbatim>\<open>(?i)(?:^|\s)(?:#\d+|(?:issue|issues|pr|pull request|pull requests)\s*#?\d+)\b\<close>;
  without the flag \<^verbatim>\<open>m\<close> the anchor \<^verbatim>\<open>^\<close> is the start of the text.\<close>

definition issueRefRe :: re where
  "issueRefRe =
     seqs [Alt Bot (One reSpace),
           Alt (Seq (lit ''#'') (plus reDigit))
               (seqs [alts [ci ''issue'', ci ''issues'', ci ''pr'', ci ''pull request'',
                            ci ''pull requests''],
                      Many reSpace, opt (lit ''#''), plus reDigit]),
           WordB]"

text \<open>\<^verbatim>\<open>(?im)^\s*#\s*context\b\<close>\<close>

definition sectionContextRe :: re where
  "sectionContextRe = seqs [Bol, Many reSpace, lit ''#'', Many reSpace, ci ''context'', WordB]"

text \<open>\<^verbatim>\<open>(?im)^\s*#\s*(desired outcomes?|goals?)\b\<close>\<close>

definition sectionOutcomeRe :: re where
  "sectionOutcomeRe =
     seqs [Bol, Many reSpace, lit ''#'', Many reSpace,
           Alt (Seq (ci ''desired outcome'') (opt (ci ''s'')))
               (Seq (ci ''goal'') (opt (ci ''s''))),
           WordB]"

text \<open>\<^verbatim>\<open>(?im)^\s*#\s*(constraints?(?:\s+and\s+non-goals?)?|non-goals?|out of scope)\b\<close>\<close>

definition sectionConstraintRe :: re where
  "sectionConstraintRe =
     seqs [Bol, Many reSpace, lit ''#'', Many reSpace,
           alts [seqs [ci ''constraint'', opt (ci ''s''),
                       opt (seqs [plus reSpace, ci ''and'', plus reSpace, ci ''non-goal'',
                                  opt (ci ''s'')])],
                 Seq (ci ''non-goal'') (opt (ci ''s'')),
                 ci ''out of scope''],
           WordB]"

text \<open>\<^verbatim>\<open>(?im)^\s*#\s*(acceptance criteria|validation|test expectations?)\b\<close>\<close>

definition sectionAcceptRe :: re where
  "sectionAcceptRe =
     seqs [Bol, Many reSpace, lit ''#'', Many reSpace,
           alts [ci ''acceptance criteria'', ci ''validation'',
                 Seq (ci ''test expectation'') (opt (ci ''s''))],
           WordB]"

section \<open>internal/run: the prompt validator\<close>

datatype violation =
    EmptyPrompt
  | TooLong int int
  | FencedCodeBlock
  | InlineCodeMarker
  | DiffMarkers
  | CommandLines
  | StackTraceLines
  | CompilerOutput
  | IssueReference
  | CodePrefixedLine
  | MissingContext
  | MissingOutcomes
  | MissingConstraints
  | MissingAcceptance

text \<open>The last loop of \<^verbatim>\<open>ValidateNoCodePrompt\<close>: a line that starts, after trimming, with
  \<^verbatim>\<open>+\<close> or \<^verbatim>\<open>-\<close> and goes on with a byte other than a space.\<close>

fun prefixedLineLoop :: "string list \<Rightarrow> violation option" where
  "prefixedLineLoop [] = None"
| "prefixedLineLoop (line # rest) =
     (let l = TrimSpace line in
      if (HasPrefix l ''+'' \<or> HasPrefix l ''-'') \<and> length l > 1 \<and> l ! 1 \<noteq> CHR '' ''
      then Some CodePrefixedLine
      else prefixedLineLoop rest)"

definition ValidateNoCodePrompt :: "string \<Rightarrow> int \<Rightarrow> violation option" where
  "ValidateNoCodePrompt prompt maxLength =
     (let trimmed = TrimSpace prompt in
      if trimmed = [] then Some EmptyPrompt
      else if maxLength > 0 \<and> int (length trimmed) > maxLength
        then Some (TooLong (int (length trimmed)) maxLength)
      else if Contains trimmed [CHR 0x60, CHR 0x60, CHR 0x60] then Some FencedCodeBlock
      else if Contains trimmed [CHR 0x60] then Some InlineCodeMarker
      else if MatchString diffMarkerRe trimmed then Some DiffMarkers
      else if MatchString commandLineRe trimmed then Some CommandLines
      else if MatchString stackTraceRe trimmed then Some StackTraceLines
      else if MatchString compileErrRe trimmed then Some CompilerOutput
      else if MatchString issueRefRe trimmed then Some IssueReference
      else prefixedLineLoop (Split trimmed (CHR 0x0A)))"

definition ValidateStructuredPrompt :: "string \<Rightarrow> violation option" where
  "ValidateStructuredPrompt prompt =
     (let trimmed = TrimSpace prompt in
      if trimmed = [] then Some EmptyPrompt
      else if \<not> MatchString sectionContextRe trimmed then Some MissingContext
      else if \<not> MatchString sectionOutcomeRe trimmed then Some MissingOutcomes
      else if \<not> MatchString sectionConstraintRe trimmed then Some MissingConstraints
      else if \<not> MatchString sectionAcceptRe trimmed then Some MissingAcceptance
      else None)"

section \<open>internal/scoring: the realism combiner\<close>

record RealismResult =
  HeuristicScore :: real
  JudgeScore :: real
  RealismScore :: real
  Reasons :: "string list"

definition CombineRealism :: "real \<Rightarrow> real \<Rightarrow> bool \<Rightarrow> real" where
  "CombineRealism heuristic judge hasJudge =
     (if \<not> hasJudge then clamp01 heuristic else clamp01 (0.6 * heuristic + 0.4 * judge))"

section \<open>internal/run: configuration\<close>

record Config =
  MaxIters :: int
  Threshold :: real
  TimeoutSeconds :: int
  KeepRuns :: bool
  Verbose :: bool
  Alpha :: real
  MaxPathRefs :: int
  MaxIdentifiers :: int
  MaxLength :: int
  CandidatesPerIter :: int
  CoderRunsPerIter :: int

definition Validate :: "Config \<Rightarrow> string option" where
  "Validate c =
     (if MaxIters c \<le> 0 then Some ''max-iters must be > 0''
      else if Threshold c < 0 \<or> Threshold c > 1 then Some ''threshold must be in [0,1]''
      else if TimeoutSeconds c \<le> 0 then Some ''timeout-seconds must be > 0''
      else if Alpha c < 0 \<or> Alpha c > 1 then Some ''alpha must be in [0,1]''
      else if MaxPathRefs c < 0 then Some ''max-path-refs must be >= 0''
      else if MaxIdentifiers c < 1 then Some ''max-identifiers must be >= 1''
      else if MaxLength c < 0 then Some ''max-length must be >= 0''
      else if CandidatesPerIter c < 1 then Some ''candidates-per-iter must be >= 1''
      else if CoderRunsPerIter c < 1 then Some ''coder-runs-per-iter must be >= 1''
      else if CoderRunsPerIter c > CandidatesPerIter c
        then Some ''coder-runs-per-iter must be <= candidates-per-iter''
      else None)"

section \<open>internal/run: best-effort tests\<close>

record TestRunResult =
  Ran :: bool
  Passed :: bool
  Category :: string
  Summary :: string

text \<open>What running one test command gives: the deadline passed, the command failed
  with the text of its standard output and error, or it succeeded.\<close>

datatype cmdOutcome = CmdTimeout | CmdFailed string | CmdOk

definition classifyTestFailure :: "string \<Rightarrow> string" where
  "classifyTestFailure output =
     (if Contains output ''compile'' \<or> Contains output ''build failed''
         \<or> Contains output ''syntax error'' then ''compilation''
      else if Contains output ''assert'' \<or> Contains output ''expected''
         \<or> Contains output ''failed'' \<or> Contains output ''panic'' then ''unit-test''
      else ''test-failure'')"

definition runSingleTestCommand ::
  "(string \<Rightarrow> string) \<Rightarrow> string \<Rightarrow> cmdOutcome \<Rightarrow> TestRunResult" where
  "runSingleTestCommand U cmdName outcome =
     (case outcome of
        CmdTimeout \<Rightarrow>
          \<lparr>Ran = True, Passed = False, Category = ''timeout'',
           Summary = cmdName @ '' timed out''\<rparr>
      | CmdFailed out \<Rightarrow>
          (let category = classifyTestFailure (ToLower U out) in
           \<lparr>Ran = True, Passed = False, Category = category,
            Summary = cmdName @ '' failed ('' @ category @ '')''\<rparr>)
      | CmdOk \<Rightarrow>
          \<lparr>Ran = True, Passed = True, Category = ''pass'', Summary = cmdName @ '' passed''\<rparr>)"

text \<open>The loop of \<^verbatim>\<open>RunBestEffortTests\<close> over the commands \<^verbatim>\<open>go\<close>, \<^verbatim>\<open>npm\<close>, \<^verbatim>\<open>cargo\<close>. The
  environment says of each whether its gate file is there and what running it gives.\<close>

fun testsLoop ::
  "(string \<Rightarrow> string) \<Rightarrow> (string \<Rightarrow> bool \<times> cmdOutcome) \<Rightarrow> string list \<Rightarrow> bool \<Rightarrow> TestRunResult" where
  "testsLoop U tenv [] runAny =
     (if \<not> runAny
      then \<lparr>Ran = False, Passed = True, Category = ''not_run'',
            Summary = ''no recognized test command at repository root''\<rparr>
      else \<lparr>Ran = True, Passed = True, Category = ''pass'',
            Summary = ''best-effort root tests passed''\<rparr>)"
| "testsLoop U tenv (name # rest) runAny =
     (if \<not> fst (tenv name) then testsLoop U tenv rest runAny
      else
        (let res = runSingleTestCommand U name (snd (tenv name)) in
         if \<not> Passed res then res else testsLoop U tenv rest True))"

definition RunBestEffortTests ::
  "(string \<Rightarrow> string) \<Rightarrow> (string \<Rightarrow> bool \<times> cmdOutcome) \<Rightarrow> TestRunResult" where
  "RunBestEffortTests U tenv = testsLoop U tenv [''go'', ''npm'', ''cargo''] False"

section \<open>The agent\<close>

record SpecCandidate =
  CandidatePrompt :: string
  Rationale :: string
  ScopeHints :: "string list"

text \<open>What \<^verbatim>\<open>Manager.GenerateSpecCandidate\<close> returns: the candidate, the raw answer and the
  error.\<close>

record genResponse =
  respCandidate :: SpecCandidate
  respRaw :: string
  respErr :: "string option"

text \<open>\<^verbatim>\<open>Manager.JudgeRealism\<close>: the environment gives the parsed answer (\<open>None\<close>: an error);
  the score is cut to \<open>[0,1]\<close>.\<close>

record JudgeResult =
  JScore :: real
  Justification :: string

definition JudgeRealism :: "(real \<times> string) option \<Rightarrow> JudgeResult option" where
  "JudgeRealism answer =
     (case answer of
        None \<Rightarrow> None
      | Some (score, justification) \<Rightarrow>
          Some \<lparr>JScore = (if score < 0 then 0 else if score > 1 then 1 else score),
                Justification = justification\<rparr>)"

text \<open>\<^verbatim>\<open>Manager.RunCoder\<close>: the session cannot be created, the send fails (an error or the
  time limit of the attempt), or the coder answers with a final message.\<close>

datatype coderOutcome = CreateSessionFailed string | SendFailed string | CoderDone string

definition coderError :: "coderOutcome \<Rightarrow> string option" where
  "coderError c =
     (case c of
        CreateSessionFailed e \<Rightarrow> Some (''create coder session: '' @ e)
      | SendFailed e \<Rightarrow> Some (''coder send: '' @ e)
      | CoderDone _ \<Rightarrow> None)"

definition coderFinalMessage :: "coderOutcome \<Rightarrow> string" where
  "coderFinalMessage c = (case c of CoderDone m \<Rightarrow> m | _ \<Rightarrow> [])"

section \<open>internal/run: the candidate pool\<close>

datatype genError =
    AgentFailure string
  | NoCodeViolation violation
  | StructureViolation violation
  | UnknownFailure

record CandidateDraftLog =
  Index :: int
  Style :: string
  logPrompt :: string
  logRationale :: string
  logScopeHints :: "string list"
  ValidationRetries :: int
  RawSpecResponse :: string
  PreRealism :: real
  Novelty :: real
  PreScore :: real
  GenerationError :: "genError option"

record candidateDraftRuntime =
  log :: CandidateDraftLog
  candidate :: SpecCandidate
  valid :: bool

definition emptyCandidate :: SpecCandidate where
  "emptyCandidate = \<lparr>CandidatePrompt = [], Rationale = [], ScopeHints = []\<rparr>"

definition emptyDraftLog :: CandidateDraftLog where
  "emptyDraftLog =
     \<lparr>Index = 0, Style = [], logPrompt = [], logRationale = [], logScopeHints = [],
      ValidationRetries = 0, RawSpecResponse = [], PreRealism = 0, Novelty = 0, PreScore = 0,
      GenerationError = None\<rparr>"

text \<open>The loop of \<^verbatim>\<open>generateValidCandidate\<close>: \<open>n\<close> attempts are left of the five, \<open>gen\<close>
  gives the agent's answer to each attempt. The request, with the reason of the last
  violation, only travels to the agent. The result is the candidate, the last raw answer,
  the number of retries and the error.\<close>

fun generateLoop ::
  "int \<Rightarrow> (nat \<Rightarrow> genResponse) \<Rightarrow> nat \<Rightarrow> nat \<Rightarrow> string \<Rightarrow> genError option
     \<Rightarrow> SpecCandidate \<times> string \<times> int \<times> genError option" where
  "generateLoop maxLength gen 0 attempt lastRaw lastErr =
     (emptyCandidate, lastRaw, 5,
      Some (case lastErr of None \<Rightarrow> UnknownFailure | Some e \<Rightarrow> e))"
| "generateLoop maxLength gen (Suc n) attempt lastRaw lastErr =
     (let r = gen attempt; c = respCandidate r; raw = respRaw r in
      case respErr r of
        Some e \<Rightarrow> generateLoop maxLength gen n (Suc attempt) raw (Some (AgentFailure e))
      | None \<Rightarrow>
          (case ValidateNoCodePrompt (CandidatePrompt c) maxLength of
             Some v \<Rightarrow> generateLoop maxLength gen n (Suc attempt) raw (Some (NoCodeViolation v))
           | None \<Rightarrow>
               (case ValidateStructuredPrompt (CandidatePrompt c) of
                  Some v \<Rightarrow>
                    generateLoop maxLength gen n (Suc attempt) raw (Some (StructureViolation v))
                | None \<Rightarrow>
                    (c\<lparr>CandidatePrompt := TrimSpace (CandidatePrompt c),
                       Rationale := TrimSpace (Rationale c)\<rparr>,
                     raw, int attempt, None))))"

definition generateValidCandidate ::
  "Config \<Rightarrow> (nat \<Rightarrow> genResponse) \<Rightarrow> SpecCandidate \<times> string \<times> int \<times> genError option" where
  "generateValidCandidate cfg gen = generateLoop (MaxLength cfg) gen 5 0 [] None"

definition candidateStyles :: "int \<Rightarrow> string list" where
  "candidateStyles n =
     (let base = [''balanced high-level design request'',
                  ''minimal-scope request focused on core behavior'',
                  ''acceptance-criteria-first request'',
                  ''resilience and error-handling focused request'',
                  ''test-oriented request emphasizing observable behavior'']
      in if n \<le> int (length base) then take (nat n) base
         else base @ replicate (nat n - length base)
                ''balanced high-level design request with concise constraints'')"

text \<open>\<^verbatim>\<open>regexp.ReplaceAllString(s, "")\<close>: the leftmost match, the best one at its start, is
  cut out and the search goes on behind it. \<open>k\<close> bytes of the current match are still to
  be dropped.\<close>

fun replaceLoop :: "re \<Rightarrow> nat \<Rightarrow> char option \<Rightarrow> string \<Rightarrow> string" where
  "replaceLoop r k p [] = []"
| "replaceLoop r (Suc k) p (c # s) = replaceLoop r k (Some c) s"
| "replaceLoop r 0 p (c # s) =
     (case rmatch r (p, c # s) of
        [] \<Rightarrow> c # replaceLoop r 0 (Some c) s
      | (p', s') # _ \<Rightarrow>
          (let n = Suc (length s) - length s' in
           if n = 0 then c # replaceLoop r 0 (Some c) s
           else replaceLoop r (n - 1) (Some c) s))"

text \<open>\<^verbatim>\<open>trackerRefCleanupRe\<close> is the pattern of \<^verbatim>\<open>issueRefRe\<close>.\<close>

definition stripTrackerRefs :: "string \<Rightarrow> string" where
  "stripTrackerRefs s = replaceLoop issueRefRe 0 None s"

definition seedPrompt :: "string \<Rightarrow> string" where
  "seedPrompt lowerMsg =
     ''# Context'' @ [CHR 0x0A] @
     ''We need to improve the connection lifecycle to support '' @ lowerMsg @
     '' while keeping behavior backward compatible for normal handshakes.'' @
     [CHR 0x0A, CHR 0x0A] @
     ''# Desired Outcomes'' @ [CHR 0x0A] @
     ''Add a reliable way to capture minimal runtime connection state and resume from it safely, including validation and graceful fallback when resume is invalid or unavailable.'' @
     [CHR 0x0A, CHR 0x0A] @
     ''# Constraints and Non-Goals'' @ [CHR 0x0A] @
     ''Keep scope focused on resume-related flows, avoid unrelated refactors, and preserve interoperability expectations.'' @
     [CHR 0x0A, CHR 0x0A] @
     ''# Acceptance Criteria'' @ [CHR 0x0A] @
     ''Resumed sessions behave consistently with fresh sessions for security and correctness, error paths are explicit, and tests cover both successful and unsuccessful resume scenarios.''"

text \<open>
  \<^verbatim>\<open>makeCommitSeedCandidate\<close>. \<open>H\<close> is \<^verbatim>\<open>scoring.ScoreRealismHeuristic\<close> at the thresholds of
  the configuration; \<open>intents\<close> is \<^verbatim>\<open>feedback.InferIntents(target)\<close>, which only fills the
  scope hints. Both are parameters: no theorem depends on what they compute.
\<close>

definition makeCommitSeedCandidate ::
  "Config \<Rightarrow> (string \<Rightarrow> string) \<Rightarrow> (string \<Rightarrow> RealismResult) \<Rightarrow> string \<Rightarrow> string list
     \<Rightarrow> string list \<Rightarrow> candidateDraftRuntime option" where
  "makeCommitSeedCandidate cfg U H commitMessage intents promptHistory =
     (let msg = TrimSpace (stripTrackerRefs commitMessage) in
      if msg = [] then None
      else
        (let scope = (if length intents > 0 then take 4 intents
                      else [''state management'', ''connection lifecycle'', ''test coverage'']);
             prompt0 = TrimSpace (seedPrompt (ToLower U msg));
             prompt = (if MaxLength cfg > 0 \<and> int (length prompt0) > MaxLength cfg
                       then take (nat (MaxLength cfg)) prompt0 else prompt0)
         in if ValidateNoCodePrompt prompt (MaxLength cfg) \<noteq> None then None
            else if ValidateStructuredPrompt prompt \<noteq> None then None
            else
              (let realism = H prompt;
                   novelty = noveltyScore U prompt promptHistory;
                   pre = 0.8 * HeuristicScore realism + 0.2 * novelty;
                   cand = \<lparr>CandidatePrompt = prompt,
                           Rationale = ''Commit-message anchored seed to stabilize search around likely intent.'',
                           ScopeHints = scope\<rparr>;
                   logEntry = \<lparr>Index = 1000, Style = ''commit-message-seed'',
                               logPrompt = prompt, logRationale = Rationale cand,
                               logScopeHints = scope, ValidationRetries = 0,
                               RawSpecResponse = [], PreRealism = HeuristicScore realism,
                               Novelty = novelty, PreScore = pre, GenerationError = None\<rparr>
               in Some \<lparr>log = logEntry, candidate = cand, valid = True\<rparr>)))"

text \<open>The loop of \<^verbatim>\<open>generateCandidatePool\<close> over the styles: \<open>idx\<close> is the index of the
  style, \<open>genv idx\<close> the agent's answers to the attempts of that slot.\<close>

fun poolLoop ::
  "Config \<Rightarrow> (string \<Rightarrow> string) \<Rightarrow> (string \<Rightarrow> RealismResult) \<Rightarrow> (nat \<Rightarrow> nat \<Rightarrow> genResponse)
     \<Rightarrow> string list \<Rightarrow> string list \<Rightarrow> nat \<Rightarrow> candidateDraftRuntime list" where
  "poolLoop cfg U H genv promptHistory [] idx = []"
| "poolLoop cfg U H genv promptHistory (style # rest) idx =
     (case generateValidCandidate cfg (genv idx) of
        (cand, raw, retries, err) \<Rightarrow>
          (let logEntry = emptyDraftLog\<lparr>Index := int idx, Style := style,
                            ValidationRetries := retries, RawSpecResponse := raw\<rparr>
           in case err of
                Some e \<Rightarrow>
                  \<lparr>log = logEntry\<lparr>GenerationError := Some e\<rparr>, candidate = emptyCandidate,
                   valid = False\<rparr>
                  # poolLoop cfg U H genv promptHistory rest (Suc idx)
              | None \<Rightarrow>
                  (let realism = H (CandidatePrompt cand);
                       novelty = noveltyScore U (CandidatePrompt cand) promptHistory;
                       pre = 0.8 * HeuristicScore realism + 0.2 * novelty
                   in \<lparr>log = logEntry\<lparr>logPrompt := CandidatePrompt cand,
                                       logRationale := Rationale cand,
                                       logScopeHints := ScopeHints cand,
                                       PreRealism := HeuristicScore realism,
                                       Novelty := novelty, PreScore := pre\<rparr>,
                       candidate = cand, valid = True\<rparr>
                      # poolLoop cfg U H genv promptHistory rest (Suc idx))))"

text \<open>\<^verbatim>\<open>generateCandidatePool\<close>: the drafts of the styles, then the seed when it
  validates; an error when no draft is valid.\<close>

definition generateCandidatePool ::
  "Config \<Rightarrow> (string \<Rightarrow> string) \<Rightarrow> (string \<Rightarrow> RealismResult) \<Rightarrow> (nat \<Rightarrow> nat \<Rightarrow> genResponse)
     \<Rightarrow> string list \<Rightarrow> string \<Rightarrow> string list \<Rightarrow> candidateDraftRuntime list \<times> bool" where
  "generateCandidatePool cfg U H genv promptHistory commitMessage intents =
     (let out = poolLoop cfg U H genv promptHistory (candidateStyles (CandidatesPerIter cfg)) 0;
          out' = (case makeCommitSeedCandidate cfg U H commitMessage intents promptHistory of
                    Some seed \<Rightarrow> out @ [seed] | None \<Rightarrow> out);
          validCount = length (filter valid out')
      in (out', validCount = 0))"

section \<open>internal/run: one execution attempt\<close>

record CoderAttemptLog =
  CandidateIndex :: int
  CandidateStyle :: string
  attemptPrompt :: string
  CoderError :: string
  CoderFinalMessage :: string
  Tech :: TechScore
  Realism :: RealismResult
  FinalScore :: real
  TestResult :: TestRunResult
  ProducedFiles :: "string list"

record coderAttemptRuntime =
  alog :: CoderAttemptLog
  produced :: DiffSnapshot

text \<open>What the collaborators answer during one attempt: \<^verbatim>\<open>git.CreateWorktree\<close>,
  \<^verbatim>\<open>Manager.RunCoder\<close>, \<^verbatim>\<open>git.SnapshotWorktree\<close>, \<^verbatim>\<open>Manager.JudgeRealism\<close>, the test commands
  and the write of the patch file.\<close>

record attemptEnv =
  worktreeErr :: "string option"
  coder :: coderOutcome
  snapshot :: "string + DiffSnapshot"
  judgeAnswer :: "(real \<times> string) option"
  testsEnv :: "string \<Rightarrow> bool \<times> cmdOutcome"
  writePatchErr :: "string option"

datatype runError =
    SetupFailed string
  | GenerateCandidatesFailed int
  | AllGenerationsFailed int
  | CreateWorktreeFailed int int string
  | SnapshotFailed int int string
  | WritePatchFailed string
  | IndexOutOfRange
  | NoSuccessfulIteration
  | WriteArtifactFailed string

text \<open>The body of the loop over the ranks in \<^verbatim>\<open>Execute\<close> (lines 213 to 288).\<close>

definition runAttempt ::
  "Config \<Rightarrow> (string \<Rightarrow> string) \<Rightarrow> (string \<Rightarrow> RealismResult) \<Rightarrow> DiffSnapshot \<Rightarrow> int \<Rightarrow> nat
     \<Rightarrow> candidateDraftRuntime \<Rightarrow> attemptEnv \<Rightarrow> runError + coderAttemptRuntime" where
  "runAttempt cfg U H target iter rank draft e =
     (case worktreeErr e of
        Some m \<Rightarrow> Inl (CreateWorktreeFailed iter (int rank + 1) m)
      | None \<Rightarrow>
          (let coderErr = coderError (coder e) in
           case snapshot e of
             Inl m \<Rightarrow> Inl (SnapshotFailed iter (int rank + 1) m)
           | Inr snap \<Rightarrow>
               (let tech = ScoreTechSimilarity target snap;
                    realism0 = H (CandidatePrompt (candidate draft));
                    judge = JudgeRealism (judgeAnswer e);
                    hasJudge = (judge \<noteq> None);
                    judgeScore = (case judge of None \<Rightarrow> 0 | Some j \<Rightarrow> JScore j);
                    realism1 =
                      (case judge of
                         None \<Rightarrow> realism0
                       | Some j \<Rightarrow>
                           realism0\<lparr>JudgeScore := JScore j,
                             Reasons :=
                               (if TrimSpace (Justification j) \<noteq> []
                                then Reasons realism0 @ [''judge: '' @ TrimSpace (Justification j)]
                                else Reasons realism0)\<rparr>);
                    realism = realism1\<lparr>RealismScore :=
                                CombineRealism (HeuristicScore realism1) judgeScore hasJudge\<rparr>;
                    finalScore = Alpha cfg * Score tech + (1 - Alpha cfg) * RealismScore realism;
                    testResult =
                      (if coderErr = None then RunBestEffortTests U (testsEnv e)
                       else \<lparr>Ran = False, Passed = True, Category = ''not_run'',
                             Summary = ''coder session failed before test run''\<rparr>)
                in case writePatchErr e of
                     Some m \<Rightarrow> Inl (WritePatchFailed m)
                   | None \<Rightarrow>
                       Inr \<lparr>alog =
                             \<lparr>CandidateIndex = Index (log draft),
                              CandidateStyle = Style (log draft),
                              attemptPrompt = CandidatePrompt (candidate draft),
                              CoderError = (case coderErr of None \<Rightarrow> [] | Some m \<Rightarrow> m),
                              CoderFinalMessage = coderFinalMessage (coder e),
                              Tech = tech, Realism = realism, FinalScore = finalScore,
                              TestResult = testResult,
                              ProducedFiles = ChangedFiles snap\<rparr>,
                            produced = snap\<rparr>)))"

fun attemptsLoop ::
  "Config \<Rightarrow> (string \<Rightarrow> string) \<Rightarrow> (string \<Rightarrow> RealismResult) \<Rightarrow> DiffSnapshot \<Rightarrow> int
     \<Rightarrow> (nat \<Rightarrow> attemptEnv) \<Rightarrow> candidateDraftRuntime list \<Rightarrow> nat
     \<Rightarrow> runError + coderAttemptRuntime list" where
  "attemptsLoop cfg U H target iter aenv [] rank = Inr []"
| "attemptsLoop cfg U H target iter aenv (draft # rest) rank =
     (case runAttempt cfg U H target iter rank draft (aenv rank) of
        Inl e \<Rightarrow> Inl e
      | Inr a \<Rightarrow>
          (case attemptsLoop cfg U H target iter aenv rest (Suc rank) of
             Inl e \<Rightarrow> Inl e
           | Inr as \<Rightarrow> Inr (a # as)))"

text \<open>The choice of the best attempt of the iteration (lines 291 to 296).\<close>

fun bestLoop :: "coderAttemptRuntime list \<Rightarrow> nat list \<Rightarrow> nat \<Rightarrow> nat" where
  "bestLoop attempts [] bestAttemptIdx = bestAttemptIdx"
| "bestLoop attempts (i # rest) bestAttemptIdx =
     bestLoop attempts rest
       (if FinalScore (alog (attempts ! i)) > FinalScore (alog (attempts ! bestAttemptIdx))
        then i else bestAttemptIdx)"

definition selectBest :: "coderAttemptRuntime list \<Rightarrow> nat" where
  "selectBest attempts = bestLoop attempts [0..<length attempts] 0"

section \<open>internal/run: the iteration loop\<close>

record bestState =
  bestIteration :: int
  bestPrompt :: string
  bestPatch :: string
  bestTech :: real
  bestRealism :: real
  bestFinal :: real

record IterationLog =
  Iteration :: int
  Drafts :: "CandidateDraftLog list"
  CoderAttempts :: "CoderAttemptLog list"
  SelectedAttempt :: int
  IterationBestScore :: real

text \<open>The variables of \<^verbatim>\<open>Execute\<close> that live across iterations. The feedback text, the
  previous prompt and the previous outcome only travel to the agent and are left out.\<close>

record SearchState =
  st_best :: bestState
  st_stoppedReason :: string
  st_noImprovement :: int
  st_promptHistory :: "string list"
  st_iterations :: "IterationLog list"

text \<open>What the collaborators answer during one iteration: the agent's drafts by style
  index and attempt, the order \<^verbatim>\<open>sort.Slice\<close> leaves the valid drafts in, and the answers
  during the attempt of each rank.\<close>

record iterEnv =
  genv :: "nat \<Rightarrow> nat \<Rightarrow> genResponse"
  sortOutcome :: "candidateDraftRuntime list \<Rightarrow> candidateDraftRuntime list"
  aenv :: "nat \<Rightarrow> attemptEnv"

text \<open>
  What the Go library promises of \<^verbatim>\<open>sort.Slice(x, less)\<close>: afterwards the slice holds the
  same elements, and no element is less than one before it. The sort is documented as
  not stable: the order of elements of which neither is less than the other is left open.
\<close>

definition sortSliceContract :: "('a \<Rightarrow> 'a \<Rightarrow> bool) \<Rightarrow> 'a list \<Rightarrow> 'a list \<Rightarrow> bool" where
  "sortSliceContract lt before after =
     (mset after = mset before \<and> sorted_wrt (\<lambda>a b. \<not> lt b a) after)"

definition preScoreLess :: "candidateDraftRuntime \<Rightarrow> candidateDraftRuntime \<Rightarrow> bool" where
  "preScoreLess a b = (PreScore (log a) > PreScore (log b))"

text \<open>The first part of an iteration (lines 175 to 289): the pool, the valid drafts and
  the history, the ranking, the attempts of the best ranked drafts. The result is the
  logs of the drafts, the new history, the ranked drafts and the attempts.\<close>

definition runCandidates ::
  "Config \<Rightarrow> (string \<Rightarrow> string) \<Rightarrow> (string \<Rightarrow> RealismResult) \<Rightarrow> DiffSnapshot \<Rightarrow> string
     \<Rightarrow> string list \<Rightarrow> iterEnv \<Rightarrow> int \<Rightarrow> string list
     \<Rightarrow> runError + (CandidateDraftLog list \<times> string list \<times> candidateDraftRuntime list
                     \<times> coderAttemptRuntime list)" where
  "runCandidates cfg U H target commitMessage intents ienv iter promptHistory =
     (case generateCandidatePool cfg U H (genv ienv) promptHistory commitMessage intents of
        (drafts, draftErr) \<Rightarrow>
          if draftErr then Inl (GenerateCandidatesFailed iter)
          else
            (let validDrafts = filter valid drafts;
                 draftLogs = map log drafts;
                 promptHistory' =
                   promptHistory @ map (\<lambda>d. CandidatePrompt (candidate d)) validDrafts
             in if length validDrafts = 0 then Inl (AllGenerationsFailed iter)
                else
                  (let ranked = sortOutcome ienv validDrafts;
                       coderBudget = minInt (CoderRunsPerIter cfg) (int (length validDrafts))
                   in case attemptsLoop cfg U H target iter (aenv ienv)
                             (take (nat coderBudget) ranked) 0 of
                        Inl e \<Rightarrow> Inl e
                      | Inr attempts \<Rightarrow> Inr (draftLogs, promptHistory', ranked, attempts))))"

text \<open>The second part of an iteration (lines 291 to 370): the best attempt, the log, the
  global best, the counter of iterations without improvement and the stop conditions. The
  flag of the result says that the loop breaks.\<close>

definition advance ::
  "Config \<Rightarrow> int \<Rightarrow> SearchState \<Rightarrow> CandidateDraftLog list \<Rightarrow> string list
     \<Rightarrow> coderAttemptRuntime list \<Rightarrow> SearchState \<times> bool" where
  "advance cfg iter st draftLogs promptHistory' attempts =
     (let bestAttemptIdx = selectBest attempts;
          bestAttempt = attempts ! bestAttemptIdx;
          iterLog = \<lparr>Iteration = iter, Drafts = draftLogs, CoderAttempts = map alog attempts,
                     SelectedAttempt = int bestAttemptIdx,
                     IterationBestScore = FinalScore (alog bestAttempt)\<rparr>;
          improved = (FinalScore (alog bestAttempt) > bestFinal (st_best st));
          st1 = st\<lparr>st_promptHistory := promptHistory',
                   st_iterations := st_iterations st @ [iterLog],
                   st_best :=
                     (if improved
                      then \<lparr>bestIteration = iter,
                            bestPrompt = attemptPrompt (alog bestAttempt),
                            bestPatch = Patch (produced bestAttempt),
                            bestTech = Score (Tech (alog bestAttempt)),
                            bestRealism = RealismScore (Realism (alog bestAttempt)),
                            bestFinal = FinalScore (alog bestAttempt)\<rparr>
                      else st_best st),
                   st_noImprovement := (if improved then 0 else st_noImprovement st + 1)\<rparr>
      in if FinalScore (alog bestAttempt) \<ge> Threshold cfg
           then (st1\<lparr>st_stoppedReason := ''threshold reached''\<rparr>, True)
         else if st_noImprovement st1 \<ge> 3
           then (st1\<lparr>st_stoppedReason := ''no improvement for 3 iterations''\<rparr>, True)
         else (st1, False))"

text \<open>One iteration. With no attempt, reading \<^verbatim>\<open>attempts[0]\<close> panics.\<close>

definition iteration ::
  "Config \<Rightarrow> (string \<Rightarrow> string) \<Rightarrow> (string \<Rightarrow> RealismResult) \<Rightarrow> DiffSnapshot \<Rightarrow> string
     \<Rightarrow> string list \<Rightarrow> iterEnv \<Rightarrow> int \<Rightarrow> SearchState \<Rightarrow> runError + (SearchState \<times> bool)" where
  "iteration cfg U H target commitMessage intents ienv iter st =
     (case runCandidates cfg U H target commitMessage intents ienv iter (st_promptHistory st) of
        Inl e \<Rightarrow> Inl e
      | Inr (draftLogs, promptHistory', ranked, attempts) \<Rightarrow>
          if attempts = [] then Inl IndexOutOfRange
          else Inr (advance cfg iter st draftLogs promptHistory' attempts))"

text \<open>The loop \<^verbatim>\<open>for iter := 1; iter <= MaxIters; iter++\<close>: \<open>n\<close> iterations are left.\<close>

fun iterLoop ::
  "Config \<Rightarrow> (string \<Rightarrow> string) \<Rightarrow> (string \<Rightarrow> RealismResult) \<Rightarrow> DiffSnapshot \<Rightarrow> string
     \<Rightarrow> string list \<Rightarrow> (int \<Rightarrow> iterEnv) \<Rightarrow> nat \<Rightarrow> int \<Rightarrow> SearchState
     \<Rightarrow> runError + SearchState" where
  "iterLoop cfg U H target commitMessage intents env 0 iter st = Inr st"
| "iterLoop cfg U H target commitMessage intents env (Suc n) iter st =
     (case iteration cfg U H target commitMessage intents (env iter) iter st of
        Inl e \<Rightarrow> Inl e
      | Inr (st', stop) \<Rightarrow>
          if stop then Inr st'
          else iterLoop cfg U H target commitMessage intents env n (iter + 1) st')"

record RunLog =
  logAlpha :: real
  logThreshold :: real
  logMaxIters :: int
  logBestIteration :: int
  Iterations :: "IterationLog list"
  StoppedReason :: string
  CommitMessage :: string

record Result =
  BestIteration :: int
  BestTechSimilarity :: real
  BestRealism :: real
  BestFinalScore :: real

text \<open>What the collaborators answer during a run: the start (layout, repository, commit,
  target snapshot, agent session: an error, or the commit message and the target), the
  iterations, and the writes of the artifacts at the end.\<close>

record runEnv =
  startup :: "string + (string \<times> DiffSnapshot)"
  iterations :: "int \<Rightarrow> iterEnv"
  artifactErr :: "string option"

definition initialState :: SearchState where
  "initialState =
     \<lparr>st_best = \<lparr>bestIteration = 0, bestPrompt = [], bestPatch = [], bestTech = 0,
                 bestRealism = 0, bestFinal = - 1\<rparr>,
      st_stoppedReason = ''max-iters reached'', st_noImprovement = 0,
      st_promptHistory = [], st_iterations = []\<rparr>"

text \<open>\<^verbatim>\<open>Runner.Execute\<close>. \<open>I\<close> is \<^verbatim>\<open>feedback.InferIntents\<close>.\<close>

definition Execute ::
  "Config \<Rightarrow> (string \<Rightarrow> string) \<Rightarrow> (string \<Rightarrow> RealismResult) \<Rightarrow> (DiffSnapshot \<Rightarrow> string list)
     \<Rightarrow> runEnv \<Rightarrow> runError + (Result \<times> RunLog)" where
  "Execute cfg U H I env =
     (case startup env of
        Inl m \<Rightarrow> Inl (SetupFailed m)
      | Inr (commitMessage, target) \<Rightarrow>
          (case iterLoop cfg U H target commitMessage (I target) (iterations env)
                  (nat (MaxIters cfg)) 1 initialState of
             Inl e \<Rightarrow> Inl e
           | Inr st \<Rightarrow>
               if bestIteration (st_best st) = 0 then Inl NoSuccessfulIteration
               else
                 (case artifactErr env of
                    Some m \<Rightarrow> Inl (WriteArtifactFailed m)
                  | None \<Rightarrow>
                      Inr (\<lparr>BestIteration = bestIteration (st_best st),
                            BestTechSimilarity = bestTech (st_best st),
                            BestRealism = bestRealism (st_best st),
                            BestFinalScore = bestFinal (st_best st)\<rparr>,
                           \<lparr>logAlpha = Alpha cfg, logThreshold = Threshold cfg,
                            logMaxIters = MaxIters cfg,
                            logBestIteration = bestIteration (st_best st),
                            Iterations = st_iterations st,
                            StoppedReason = st_stoppedReason st,
                            CommitMessage = commitMessage\<rparr>))))"

section \<open>The state machine of the specification\<close>

text \<open>
  Section 4.7 of the specification describes the controller on the best final score of
  each iteration alone: replace the global best on a strictly greater score and reset the
  counter, else count; stop at the threshold, or when the counter reaches 3. The
  definitions of this section follow those words. They are compared with the loop of
  \<^verbatim>\<open>Execute\<close> below and used to compute runs.
\<close>

record Summary =
  sBestIteration :: int
  sBestFinal :: real
  sNoImprovement :: int
  sStoppedReason :: string
  sScores :: "real list"

definition summary :: "SearchState \<Rightarrow> Summary" where
  "summary st =
     \<lparr>sBestIteration = bestIteration (st_best st), sBestFinal = bestFinal (st_best st),
      sNoImprovement = st_noImprovement st, sStoppedReason = st_stoppedReason st,
      sScores = map IterationBestScore (st_iterations st)\<rparr>"

definition specStep :: "real \<Rightarrow> int \<Rightarrow> real \<Rightarrow> Summary \<Rightarrow> Summary \<times> bool" where
  "specStep threshold iter s a =
     (let improved = (s > sBestFinal a);
          a1 = a\<lparr>sBestIteration := (if improved then iter else sBestIteration a),
                 sBestFinal := (if improved then s else sBestFinal a),
                 sNoImprovement := (if improved then 0 else sNoImprovement a + 1),
                 sScores := sScores a @ [s]\<rparr>
      in if s \<ge> threshold then (a1\<lparr>sStoppedReason := ''threshold reached''\<rparr>, True)
         else if sNoImprovement a1 \<ge> 3
           then (a1\<lparr>sStoppedReason := ''no improvement for 3 iterations''\<rparr>, True)
         else (a1, False))"

text \<open>The run of the state machine when iteration \<open>k\<close> has the best score \<open>f k\<close>.\<close>

fun specLoop :: "real \<Rightarrow> (int \<Rightarrow> real) \<Rightarrow> nat \<Rightarrow> int \<Rightarrow> Summary \<Rightarrow> Summary" where
  "specLoop threshold f 0 iter a = a"
| "specLoop threshold f (Suc n) iter a =
     (case specStep threshold iter (f iter) a of
        (a1, stop) \<Rightarrow> if stop then a1 else specLoop threshold f n (iter + 1) a1)"

text \<open>The state machine replayed on the scores of a log: \<open>replay\<close> gives the state after
  them, \<open>replayStops\<close> says that no step but the last one stops.\<close>

fun replay :: "real \<Rightarrow> int \<Rightarrow> Summary \<Rightarrow> real list \<Rightarrow> Summary" where
  "replay threshold iter a [] = a"
| "replay threshold iter a (s # rest) =
     replay threshold (iter + 1) (fst (specStep threshold iter s a)) rest"

fun replayStops :: "real \<Rightarrow> int \<Rightarrow> Summary \<Rightarrow> real list \<Rightarrow> bool" where
  "replayStops threshold iter a [] = True"
| "replayStops threshold iter a [s] = True"
| "replayStops threshold iter a (s # rest) =
     (\<not> snd (specStep threshold iter s a) \<and>
      replayStops threshold (iter + 1) (fst (specStep threshold iter s a)) rest)"

section \<open>A scripted environment\<close>

text \<open>
  A run needs answers of the collaborators. In the scripted environment the agent always
  drafts \<open>demoPrompt\<close>, the coder changes nothing, no test command is found, the heuristic
  realism is one half, and the judge of iteration \<open>k\<close> answers the \<open>k\<close>-th score of a
  script. With \<open>Alpha = 0\<close> the final score of the attempt is \<open>0.3 + 0.4 * j\<close> for a judge
  score \<open>j\<close> in \<open>[0,1]\<close>.
\<close>

definition demoPrompt :: string where
  "demoPrompt =
     ''# Context'' @ [CHR 0x0A] @ ''Uploads fail on slow links.'' @ [CHR 0x0A] @
     ''# Goals'' @ [CHR 0x0A] @ ''Retry uploads.'' @ [CHR 0x0A] @
     ''# Non-Goals'' @ [CHR 0x0A] @ ''No refactor.'' @ [CHR 0x0A] @
     ''# Validation'' @ [CHR 0x0A] @ ''Tests cover retries.''"

definition demoH :: "string \<Rightarrow> RealismResult" where
  "demoH p = \<lparr>HeuristicScore = 0.5, JudgeScore = 0, RealismScore = 0, Reasons = []\<rparr>"

definition demoSnapshot :: DiffSnapshot where
  "demoSnapshot = \<lparr>Patch = [], ChangedFiles = [], FileStats = Map.empty\<rparr>"

definition demoAttemptEnv :: "coderOutcome \<Rightarrow> real \<Rightarrow> attemptEnv" where
  "demoAttemptEnv c j =
     \<lparr>worktreeErr = None, coder = c, snapshot = Inr demoSnapshot,
      judgeAnswer = Some (j, []), testsEnv = (\<lambda>name. (False, CmdOk)), writePatchErr = None\<rparr>"

definition demoIter :: "coderOutcome \<Rightarrow> real \<Rightarrow> iterEnv" where
  "demoIter c j =
     \<lparr>genv = (\<lambda>idx attempt.
         \<lparr>respCandidate = \<lparr>CandidatePrompt = demoPrompt, Rationale = [], ScopeHints = []\<rparr>,
          respRaw = [], respErr = None\<rparr>),
      sortOutcome = (\<lambda>drafts. drafts),
      aenv = (\<lambda>rank. demoAttemptEnv c j)\<rparr>"

definition demoScript :: "real list \<Rightarrow> int \<Rightarrow> real" where
  "demoScript js k = (if 1 \<le> k \<and> nat (k - 1) < length js then js ! nat (k - 1) else 0)"

definition demoEnv :: "real list \<Rightarrow> runEnv" where
  "demoEnv js =
     \<lparr>startup = Inr ([], demoSnapshot),
      iterations = (\<lambda>k. demoIter (CoderDone []) (demoScript js k)),
      artifactErr = None\<rparr>"

definition demoCfg :: "int \<Rightarrow> real \<Rightarrow> Config" where
  "demoCfg maxIters threshold =
     \<lparr>MaxIters = maxIters, Threshold = threshold, TimeoutSeconds = 600, KeepRuns = False,
      Verbose = False, Alpha = 0, MaxPathRefs = 3, MaxIdentifiers = 25, MaxLength = 0,
      CandidatesPerIter = 1, CoderRunsPerIter = 1\<rparr>"

section \<open>Technical similarity of a snapshot with itself\<close>

lemma safeDiv_same: "safeDiv x x = 1"
  by (simp add: safeDiv_def)

lemma minInt_same: "minInt v v = v"
  by (simp add: minInt_def)

lemma maxInt_same: "maxInt v v = v"
  by (simp add: maxInt_def)

lemma jaccardSet_same: "jaccardSet a a = 1"
  by (simp add: jaccardSet_def Let_def safeDiv_same)

lemma weightedJaccard_same: "weightedJaccard a a = 1"
  by (simp add: weightedJaccard_def Let_def minInt_same maxInt_same safeDiv_same)

lemma multisetIntersectionCount_same: "multisetIntersectionCount a a = multisetCount a"
  by (simp add: multisetIntersectionCount_def multisetCount_def minInt_same)

lemma clamp01_one: "clamp01 1 = 1"
  by (simp add: clamp01_def)

text \<open>
  C6. For every DiffSnapshot \<open>D\<close>, also one with an empty patch and no changed file,
  \<open>ScoreTechSimilarity D D\<close> has file Jaccard 1, diff similarity 1, line F1 1 and final
  score 1, and the final score of any two snapshots is the clamped weighted sum
  \<open>0.40 * fileJaccard + 0.45 * diffSimilarity + 0.15 * F1\<close>.
\<close>

theorem C6_self_similarity:
  "FileJaccard (ScoreTechSimilarity D D) = 1 \<and>
   DiffSimilarity (ScoreTechSimilarity D D) = 1 \<and>
   LineF1 (ScoreTechSimilarity D D) = 1 \<and>
   Score (ScoreTechSimilarity D D) = 1 \<and>
   Score (ScoreTechSimilarity T P) =
     clamp01 (0.40 * FileJaccard (ScoreTechSimilarity T P)
            + 0.45 * DiffSimilarity (ScoreTechSimilarity T P)
            + 0.15 * LineF1 (ScoreTechSimilarity T P))"
proof -
  have f1: "safeDiv (2 * 1 * 1) (1 + 1) = 1"
    by (simp add: safeDiv_def)
  show ?thesis
    by (simp add: ScoreTechSimilarity_def Let_def jaccardSet_same weightedJaccard_same
        multisetIntersectionCount_same safeDiv_same f1 clamp01_one)
qed

section \<open>Novelty: the token sets and the similarity loop\<close>

lemma tokenLoop_eq:
  "tokenLoop ws out = out \<union> set (filter (\<lambda>t. 4 \<le> length t) (map (\<lambda>w. Trim w tokenCutset) ws))"
  by (induction ws arbitrary: out) (auto simp: Let_def)

lemma toTokenSet_eq:
  "toTokenSet U s = set (filter (\<lambda>t. 4 \<le> length t) (map (\<lambda>w. Trim w tokenCutset) (Fields (ToLower U s))))"
  by (simp add: toTokenSet_def tokenLoop_eq)

lemma finite_toTokenSet: "finite (toTokenSet U s)"
  by (simp add: toTokenSet_eq)

lemma jaccardTokens_same: "finite a \<Longrightarrow> jaccardTokens a a = 1"
  by (auto simp: jaccardTokens_def Let_def)

lemma jaccardTokens_range:
  assumes fa: "finite a" and fb: "finite b"
  shows "0 \<le> jaccardTokens a b \<and> jaccardTokens a b \<le> 1"
proof -
  have eq: "{k \<in> a. k \<in> b} = a \<inter> b" by auto
  have le_a: "card (a \<inter> b) \<le> card a" by (rule card_mono[OF fa]) simp
  have le_b: "card (a \<inter> b) \<le> card b" by (rule card_mono[OF fb]) simp
  have "2 * int (card (a \<inter> b)) \<le> int (card a) + int (card b)"
    using le_a le_b by linarith
  then show ?thesis
    using le_a by (auto simp: jaccardTokens_def Let_def eq)
qed

lemma jaccardTokens_empty_left:
  "b \<noteq> {} \<Longrightarrow> jaccardTokens {} b = 0"
  by (simp add: jaccardTokens_def)

lemma Max_insert_max:
  assumes "finite A"
  shows "Max (insert (max x y) A) = Max (insert x (insert y A))"
proof (cases "A = {}")
  case True
  then show ?thesis by (simp add: max.commute)
next
  case False
  then show ?thesis using assms by (simp add: max.assoc)
qed

lemma similarityLoop_Max:
  "similarityLoop U cand hs best =
     Max (insert best ((\<lambda>h. jaccardTokens cand (toTokenSet U h)) ` set hs))"
proof (induction hs arbitrary: best)
  case Nil
  then show ?case by simp
next
  case (Cons h hs)
  let ?f = "\<lambda>h. jaccardTokens cand (toTokenSet U h)"
  have step: "(if ?f h > best then ?f h else best) = max best (?f h)"
    by (simp add: max_def)
  have "similarityLoop U cand (h # hs) best = Max (insert (max best (?f h)) (?f ` set hs))"
    using Cons.IH[of "max best (?f h)"] by (simp add: Let_def step del: Max_insert)
  also have "\<dots> = Max (insert best (insert (?f h) (?f ` set hs)))"
    by (rule Max_insert_max) simp
  finally show ?case by simp
qed

lemma similarityLoop_zero:
  assumes "finite cand" and "hs \<noteq> []"
  shows "similarityLoop U cand hs 0 = Max ((\<lambda>h. jaccardTokens cand (toTokenSet U h)) ` set hs)"
proof -
  let ?f = "\<lambda>h. jaccardTokens cand (toTokenSet U h)"
  have ne: "?f ` set hs \<noteq> {}" using assms(2) by simp
  have "0 \<le> Max (?f ` set hs)"
  proof -
    obtain h where h: "h \<in> set hs" using assms(2) by (cases hs) auto
    have "0 \<le> ?f h" using jaccardTokens_range[OF assms(1) finite_toTokenSet] by simp
    also have "?f h \<le> Max (?f ` set hs)" using h by simp
    finally show ?thesis .
  qed
  then show ?thesis
    using ne by (simp add: similarityLoop_Max max_def)
qed

lemma similarityLoop_range:
  assumes "finite cand" 
  shows "0 \<le> similarityLoop U cand hs 0 \<and> similarityLoop U cand hs 0 \<le> 1"
proof -
  let ?f = "\<lambda>h. jaccardTokens cand (toTokenSet U h)"
  have "\<forall>x \<in> insert 0 (?f ` set hs). 0 \<le> x \<and> x \<le> 1"
    using jaccardTokens_range[OF assms finite_toTokenSet] by auto
  moreover have "Max (insert 0 (?f ` set hs)) \<in> insert 0 (?f ` set hs)"
    by (rule Max_in) simp_all
  ultimately show ?thesis
    unfolding similarityLoop_Max by blast
qed


lemma run_clamp01_id: "0 \<le> v \<Longrightarrow> v \<le> 1 \<Longrightarrow> run_clamp01 v = v"
  by (simp add: run_clamp01_def)

lemma similarityLoop_hit:
  assumes fin: "finite cand" and h: "h \<in> set hs" and eq: "toTokenSet U h = cand"
  shows "similarityLoop U cand hs 0 = 1"
proof -
  let ?f = "\<lambda>h. jaccardTokens cand (toTokenSet U h)"
  have one: "?f h = 1" using jaccardTokens_same[OF fin] eq by simp
  have "?f h \<le> Max (insert 0 (?f ` set hs))" using h by (intro Max_ge) auto
  then have "1 \<le> similarityLoop U cand hs 0" using one by (simp add: similarityLoop_Max)
  moreover have "similarityLoop U cand hs 0 \<le> 1" using similarityLoop_range[OF fin] by simp
  ultimately show ?thesis by simp
qed

lemma similarityLoop_miss:
  assumes "\<forall>h \<in> set hs. jaccardTokens cand (toTokenSet U h) = 0"
  shows "similarityLoop U cand hs 0 = 0"
proof -
  have "insert 0 ((\<lambda>h. jaccardTokens cand (toTokenSet U h)) ` set hs) = {0}"
    using assms by auto
  then have "Max (insert 0 ((\<lambda>h. jaccardTokens cand (toTokenSet U h)) ` set hs)) = Max {0}"
    by (rule arg_cong)
  then show ?thesis unfolding similarityLoop_Max by simp
qed

text \<open>
  C9. For every candidate text \<open>c\<close>: the novelty against the empty history is 1; the
  novelty against \<open>[c]\<close>, and against any history with an entry of the same normalized
  token set, is 0; against a non-empty history the novelty is 1 minus the greatest
  token-set Jaccard similarity with an entry, clamped to \<open>[0,1]\<close>; the novelty lies in
  \<open>[0,1]\<close>; the tokens of a text are the white space separated fields of the lower-cased
  text, with the surrounding punctuation stripped, that have 4 bytes or more.
\<close>

theorem C9_novelty:
  "noveltyScore U c [] = 1 \<and>
   noveltyScore U c [c] = 0 \<and>
   (h \<in> set hist \<and> toTokenSet U h = toTokenSet U c \<longrightarrow> noveltyScore U c hist = 0) \<and>
   (hist \<noteq> [] \<longrightarrow>
      noveltyScore U c hist =
        run_clamp01 (1 - Max ((\<lambda>h. jaccardTokens (toTokenSet U c) (toTokenSet U h)) ` set hist))) \<and>
   0 \<le> noveltyScore U c hist \<and> noveltyScore U c hist \<le> 1 \<and>
   toTokenSet U s =
     set (filter (\<lambda>t. \<not> length t < 4) (map (\<lambda>w. Trim w tokenCutset) (Fields (ToLower U s))))"
proof -
  have fin: "finite (toTokenSet U c)" by (rule finite_toTokenSet)
  have a: "noveltyScore U c [] = 1" by (simp add: noveltyScore_def)
  have hit: "noveltyScore U c hs = 0" if "h \<in> set hs" "toTokenSet U h = toTokenSet U c" for h hs
  proof -
    have "hs \<noteq> []" using that(1) by auto
    then show ?thesis
      using similarityLoop_hit[OF fin that] by (simp add: noveltyScore_def run_clamp01_def)
  qed
  have b: "noveltyScore U c [c] = 0" by (rule hit[of c]) simp_all
  have d: "noveltyScore U c hist =
        run_clamp01 (1 - Max ((\<lambda>h. jaccardTokens (toTokenSet U c) (toTokenSet U h)) ` set hist))"
    if "hist \<noteq> []"
    using that similarityLoop_zero[OF fin that] by (simp add: noveltyScore_def)
  have e: "0 \<le> noveltyScore U c hist \<and> noveltyScore U c hist \<le> 1"
    using similarityLoop_range[OF fin, of U hist] by (simp add: noveltyScore_def run_clamp01_def)
  have f: "toTokenSet U s =
     set (filter (\<lambda>t. \<not> length t < 4) (map (\<lambda>w. Trim w tokenCutset) (Fields (ToLower U s))))"
    by (simp add: toTokenSet_eq not_less)
  show ?thesis using a b hit d e f by blast
qed

theorem C9_novelty_witness:
  "noveltyScore (\<lambda>s. s) ''Retry the Upload when the network fails'' [] = 1 \<and>
   noveltyScore (\<lambda>s. s) ''Retry the Upload when the network fails''
     [''Retry the Upload when the network fails''] = 0 \<and>
   noveltyScore (\<lambda>s. s) ''Retry the Upload when the network fails''
     [''rename some handlers'', ''upload: (RETRY) when network   fails!''] = 0 \<and>
   toTokenSet (\<lambda>s. s) ''upload: (RETRY) when network   fails!'' =
     toTokenSet (\<lambda>s. s) ''Retry the Upload when the network fails'' \<and>
   toTokenSet (\<lambda>s. s) ''Retry the Upload when the network fails'' =
     {''retry'', ''upload'', ''when'', ''network'', ''fails''}"
proof -
  let ?c = "''Retry the Upload when the network fails''"
  let ?h = "''upload: (RETRY) when network   fails!''"
  have t1: "toTokenSet (\<lambda>s. s) ?c = {''retry'', ''upload'', ''when'', ''network'', ''fails''}"
    by code_simp
  have t2: "toTokenSet (\<lambda>s. s) ?h = {''retry'', ''upload'', ''when'', ''network'', ''fails''}"
    by code_simp
  have m: "?h \<in> set [''rename some handlers'', ?h]" by simp
  show ?thesis
    using C9_novelty[of "\<lambda>s. s" ?c ?h "[''rename some handlers'', ?h]"] t1 t2 m
    by simp
qed

lemma toTokenSet_empty_iff:
  "toTokenSet U s = {} \<longleftrightarrow> (\<forall>w \<in> set (Fields (ToLower U s)). length (Trim w tokenCutset) < 4)"
  by (auto simp: toTokenSet_eq filter_empty_conv not_le)

text \<open>
  C10. When the normalized token sets of two texts are both empty, \<^verbatim>\<open>jaccardTokens\<close> gives
  1. So a candidate with an empty token set has novelty 0 against a history with an entry
  whose token set is empty too, and novelty 1 against a history whose entries all have
  non-empty token sets. A token set is empty exactly when every field of the lower-cased
  text is shorter than 4 bytes after the punctuation is stripped.
\<close>

theorem C10_empty_token_sets:
  "(toTokenSet U a = {} \<and> toTokenSet U b = {} \<longrightarrow>
      jaccardTokens (toTokenSet U a) (toTokenSet U b) = 1) \<and>
   (toTokenSet U c = {} \<and> (\<exists>h \<in> set hist. toTokenSet U h = {}) \<longrightarrow>
      noveltyScore U c hist = 0) \<and>
   (toTokenSet U c = {} \<and> (\<forall>h \<in> set hist. toTokenSet U h \<noteq> {}) \<longrightarrow>
      noveltyScore U c hist = 1) \<and>
   (toTokenSet U s = {} \<longleftrightarrow>
      (\<forall>w \<in> set (Fields (ToLower U s)). length (Trim w tokenCutset) < 4))"
proof -
  have a: "jaccardTokens (toTokenSet U a) (toTokenSet U b) = 1"
    if "toTokenSet U a = {}" "toTokenSet U b = {}"
    using that by (simp add: jaccardTokens_def)
  have b: "noveltyScore U c hist = 0"
    if ce: "toTokenSet U c = {}" and ex: "\<exists>h \<in> set hist. toTokenSet U h = {}"
  proof -
    obtain h where h: "h \<in> set hist" "toTokenSet U h = {}" using ex by blast
    have "hist \<noteq> []" using h(1) by auto
    moreover have "similarityLoop U {} hist 0 = 1"
      by (rule similarityLoop_hit[OF _ h]) simp
    ultimately show ?thesis by (simp add: noveltyScore_def ce run_clamp01_def)
  qed
  have c: "noveltyScore U c hist = 1"
    if ce: "toTokenSet U c = {}" and al: "\<forall>h \<in> set hist. toTokenSet U h \<noteq> {}"
  proof -
    have "\<forall>h \<in> set hist. jaccardTokens {} (toTokenSet U h) = 0"
      using al by (simp add: jaccardTokens_empty_left)
    then have "similarityLoop U {} hist 0 = 0" by (rule similarityLoop_miss)
    then show ?thesis by (simp add: noveltyScore_def ce run_clamp01_def)
  qed
  show ?thesis using a b c toTokenSet_empty_iff[of U s] by blast
qed

theorem C10_empty_token_sets_witness:
  "toTokenSet (\<lambda>s. s) ''to be or not'' = {} \<and>
   toTokenSet (\<lambda>s. s) ''Do it (now)!'' = {} \<and>
   jaccardTokens (toTokenSet (\<lambda>s. s) ''to be or not'') (toTokenSet (\<lambda>s. s) ''Do it (now)!'') = 1 \<and>
   noveltyScore (\<lambda>s. s) ''to be or not'' [''improve retry handling'', ''Do it (now)!''] = 0 \<and>
   noveltyScore (\<lambda>s. s) ''to be or not'' [''improve retry handling'', ''rename handlers''] = 1"
proof -
  have e1: "toTokenSet (\<lambda>s. s) ''to be or not'' = {}" by code_simp
  have e2: "toTokenSet (\<lambda>s. s) ''Do it (now)!'' = {}" by code_simp
  have n1: "toTokenSet (\<lambda>s. s) ''improve retry handling'' \<noteq> {}" by code_simp
  have n2: "toTokenSet (\<lambda>s. s) ''rename handlers'' \<noteq> {}" by code_simp
  have j: "jaccardTokens (toTokenSet (\<lambda>s. s) ''to be or not'') (toTokenSet (\<lambda>s. s) ''Do it (now)!'') = 1"
    using C10_empty_token_sets[of "\<lambda>s. s" "''to be or not''" "''Do it (now)!''"] e1 e2 by blast
  have z: "noveltyScore (\<lambda>s. s) ''to be or not'' [''improve retry handling'', ''Do it (now)!''] = 0"
    using C10_empty_token_sets[of "\<lambda>s. s" _ _ "''to be or not''"
        "[''improve retry handling'', ''Do it (now)!'']"] e1 e2 by simp
  have o: "noveltyScore (\<lambda>s. s) ''to be or not'' [''improve retry handling'', ''rename handlers''] = 1"
    using C10_empty_token_sets[of "\<lambda>s. s" _ _ "''to be or not''"
        "[''improve retry handling'', ''rename handlers'']"] e1 n1 n2 by simp
  show ?thesis using e1 e2 j z o by simp
qed

section \<open>The iteration loop and the state machine of the specification\<close>

lemma iteration_Inr:
  "iteration cfg U H target cm intents ienv iter st = Inr (st', stop) \<Longrightarrow>
     \<exists>dl h as. as \<noteq> [] \<and> advance cfg iter st dl h as = (st', stop)"
  by (auto simp: iteration_def split: sum.splits prod.splits if_splits)

lemma advance_iterations:
  "st_iterations (fst (advance cfg iter st dl h as)) =
     st_iterations st @
       [\<lparr>Iteration = iter, Drafts = dl, CoderAttempts = map alog as,
         SelectedAttempt = int (selectBest as),
         IterationBestScore = FinalScore (alog (as ! selectBest as))\<rparr>]"
  by (simp add: advance_def Let_def)

lemma advance_history:
  "st_promptHistory (fst (advance cfg iter st dl h as)) = h"
  by (simp add: advance_def Let_def)

lemma advance_best:
  "st_best (fst (advance cfg iter st dl h as)) =
     (if FinalScore (alog (as ! selectBest as)) > bestFinal (st_best st)
      then \<lparr>bestIteration = iter,
            bestPrompt = attemptPrompt (alog (as ! selectBest as)),
            bestPatch = Patch (produced (as ! selectBest as)),
            bestTech = Score (Tech (alog (as ! selectBest as))),
            bestRealism = RealismScore (Realism (alog (as ! selectBest as))),
            bestFinal = FinalScore (alog (as ! selectBest as))\<rparr>
      else st_best st)"
  by (simp add: advance_def Let_def)

lemma advance_noImprovement:
  "st_noImprovement (fst (advance cfg iter st dl h as)) =
     (if FinalScore (alog (as ! selectBest as)) > bestFinal (st_best st) then 0
      else st_noImprovement st + 1)"
  by (simp add: advance_def Let_def)

lemma advance_stop:
  "snd (advance cfg iter st dl h as) =
     (FinalScore (alog (as ! selectBest as)) \<ge> Threshold cfg \<or>
      st_noImprovement (fst (advance cfg iter st dl h as)) \<ge> 3)"
  by (simp add: advance_def Let_def)

lemma advance_reason:
  "st_stoppedReason (fst (advance cfg iter st dl h as)) =
     (if FinalScore (alog (as ! selectBest as)) \<ge> Threshold cfg then ''threshold reached''
      else if st_noImprovement (fst (advance cfg iter st dl h as)) \<ge> 3
        then ''no improvement for 3 iterations''
      else st_stoppedReason st)"
  by (simp add: advance_def Let_def)


lemma iteration_summary:
  assumes "iteration cfg U H target cm intents ienv iter st = Inr (st', stop)"
  shows "\<exists>l. st_iterations st' = st_iterations st @ [l] \<and> Iteration l = iter \<and>
             specStep (Threshold cfg) iter (IterationBestScore l) (summary st) = (summary st', stop)"
proof -
  obtain dl h as where a: "advance cfg iter st dl h as = (st', stop)"
    using iteration_Inr[OF assms] by blast
  have st': "st' = fst (advance cfg iter st dl h as)" and stop: "stop = snd (advance cfg iter st dl h as)"
    using a by simp_all
  let ?l = "\<lparr>Iteration = iter, Drafts = dl, CoderAttempts = map alog as,
         SelectedAttempt = int (selectBest as),
         IterationBestScore = FinalScore (alog (as ! selectBest as))\<rparr>"
  have 1: "st_iterations st' = st_iterations st @ [?l]"
    unfolding st' by (rule advance_iterations)
  have 2: "specStep (Threshold cfg) iter (IterationBestScore ?l) (summary st) = (summary st', stop)"
    unfolding st' stop
    by (simp add: specStep_def summary_def advance_def Let_def)
  show ?thesis using 1 2 by (intro exI[of _ ?l]) simp
qed

lemma simulation:
  assumes "\<And>iter st. \<exists>st' stop.
      iteration cfg U H target cm intents (env iter) iter st = Inr (st', stop) \<and>
      IterationBestScore (last (st_iterations st')) = f iter"
  shows "\<exists>st'. iterLoop cfg U H target cm intents env n iter st = Inr st' \<and>
               summary st' = specLoop (Threshold cfg) f n iter (summary st)"
proof (induction n arbitrary: iter st)
  case 0
  then show ?case by simp
next
  case (Suc n)
  obtain st1 stop where it: "iteration cfg U H target cm intents (env iter) iter st = Inr (st1, stop)"
    and sc: "IterationBestScore (last (st_iterations st1)) = f iter"
    using assms[of iter st] by blast
  obtain l where l: "st_iterations st1 = st_iterations st @ [l]"
    and sp: "specStep (Threshold cfg) iter (IterationBestScore l) (summary st) = (summary st1, stop)"
    using iteration_summary[OF it] by blast
  have "IterationBestScore l = f iter" using sc l by simp
  then have sp': "specStep (Threshold cfg) iter (f iter) (summary st) = (summary st1, stop)"
    using sp by simp
  show ?case
  proof (cases stop)
    case True
    then show ?thesis using it sp' by simp
  next
    case False
    obtain st' where "iterLoop cfg U H target cm intents env n (iter + 1) st1 = Inr st'"
      and "summary st' = specLoop (Threshold cfg) f n (iter + 1) (summary st1)"
      using Suc.IH[of "iter + 1" st1] by blast
    then show ?thesis using it sp' False by simp
  qed
qed

lemma loop_replay:
  assumes "iterLoop cfg U H target cm intents env n iter st = Inr st'"
  shows "\<exists>new. st_iterations st' = st_iterations st @ new \<and> length new \<le> n \<and>
           map Iteration new = map (\<lambda>k. iter + int k) [0..<length new] \<and>
           summary st' = replay (Threshold cfg) iter (summary st) (map IterationBestScore new) \<and>
           replayStops (Threshold cfg) iter (summary st) (map IterationBestScore new) \<and>
           (length new < n \<longrightarrow> new \<noteq> [] \<and>
              snd (specStep (Threshold cfg) (iter + int (length new) - 1)
                     (IterationBestScore (last new))
                     (replay (Threshold cfg) iter (summary st) (map IterationBestScore (butlast new)))))"
  using assms
proof (induction n arbitrary: iter st)
  case 0
  then show ?case by simp
next
  case (Suc n)
  from Suc.prems obtain st1 stop where
    it: "iteration cfg U H target cm intents (env iter) iter st = Inr (st1, stop)"
    by (auto split: sum.splits)
  obtain l where l: "st_iterations st1 = st_iterations st @ [l]" and li: "Iteration l = iter"
    and sp: "specStep (Threshold cfg) iter (IterationBestScore l) (summary st) = (summary st1, stop)"
    using iteration_summary[OF it] by blast
  show ?case
  proof (cases stop)
    case True
    then have "st' = st1" using Suc.prems it by simp
    then show ?thesis using l li sp True
      by (intro exI[of _ "[l]"]) simp
  next
    case False
    then have rest: "iterLoop cfg U H target cm intents env n (iter + 1) st1 = Inr st'"
      using Suc.prems it by simp
    from Suc.IH[OF rest] obtain new where
      n1: "st_iterations st' = st_iterations st1 @ new" and n2: "length new \<le> n" and
      n3: "map Iteration new = map (\<lambda>k. iter + 1 + int k) [0..<length new]" and
      n4: "summary st' = replay (Threshold cfg) (iter + 1) (summary st1) (map IterationBestScore new)" and
      n5: "replayStops (Threshold cfg) (iter + 1) (summary st1) (map IterationBestScore new)" and
      n6: "length new < n \<longrightarrow> new \<noteq> [] \<and>
              snd (specStep (Threshold cfg) (iter + 1 + int (length new) - 1)
                     (IterationBestScore (last new))
                     (replay (Threshold cfg) (iter + 1) (summary st1) (map IterationBestScore (butlast new))))"
      by blast
    have m3: "map Iteration (l # new) = map (\<lambda>k. iter + int k) [0..<length (l # new)]"
    proof -
      have "[0..<Suc (length new)] = 0 # [Suc 0..<Suc (length new)]"
        by (rule upt_conv_Cons) simp
      also have "\<dots> = 0 # map Suc [0..<length new]"
        by (simp only: map_Suc_upt)
      finally show ?thesis using li n3 by (simp add: comp_def del: upt_Suc)
    qed
    have m5: "replayStops (Threshold cfg) iter (summary st) (map IterationBestScore (l # new))"
      using n5 sp False by (cases new) simp_all
    have m6: "length (l # new) < Suc n \<longrightarrow> l # new \<noteq> [] \<and>
              snd (specStep (Threshold cfg) (iter + int (length (l # new)) - 1)
                     (IterationBestScore (last (l # new)))
                     (replay (Threshold cfg) iter (summary st) (map IterationBestScore (butlast (l # new)))))"
      using n6 sp by (auto simp: algebra_simps)
    show ?thesis
      using n1 n2 m3 n4 m5 m6 l sp
      by (intro exI[of _ "l # new"]) (simp del: upt_Suc)
  qed
qed

section \<open>Runs in the scripted environment\<close>

lemma demoPrompt_nocode: "ValidateNoCodePrompt demoPrompt 0 = None"
  by code_simp

lemma demoPrompt_structured: "ValidateStructuredPrompt demoPrompt = None"
  by code_simp

lemma demoPrompt_trim: "TrimSpace demoPrompt = demoPrompt"
  by code_simp

lemma TrimSpace_Nil: "TrimSpace [] = []"
  by code_simp

lemma stripTrackerRefs_Nil: "stripTrackerRefs [] = []"
  by (simp add: stripTrackerRefs_def)

lemma demo_generate:
  "generateValidCandidate (demoCfg m t) (genv (demoIter c j) idx) =
     (\<lparr>CandidatePrompt = demoPrompt, Rationale = [], ScopeHints = []\<rparr>, [], 0, None)"
  by (simp add: generateValidCandidate_def demoCfg_def demoIter_def numeral_eq_Suc
      demoPrompt_nocode demoPrompt_structured demoPrompt_trim TrimSpace_Nil)

lemma demo_seed:
  "makeCommitSeedCandidate cfg U H [] intents hist = None"
  by (simp add: makeCommitSeedCandidate_def stripTrackerRefs_Nil TrimSpace_Nil)

lemma demo_styles: "candidateStyles (CandidatesPerIter (demoCfg m t)) = [''balanced high-level design request'']"
  by (simp add: candidateStyles_def demoCfg_def)

lemma demo_pool:
  "\<exists>d. generateCandidatePool (demoCfg m t) U demoH (genv (demoIter c j)) hist [] intents = ([d], False)
       \<and> valid d \<and> candidate d = \<lparr>CandidatePrompt = demoPrompt, Rationale = [], ScopeHints = []\<rparr>"
  by (simp add: generateCandidatePool_def demo_seed demo_styles demo_generate Let_def)

lemma demo_attempt:
  assumes "0 \<le> j" "j \<le> 1" "candidate d = \<lparr>CandidatePrompt = demoPrompt, Rationale = [], ScopeHints = []\<rparr>"
  shows "\<exists>a. runAttempt (demoCfg m t) U demoH target iter rank d (demoAttemptEnv c j) = Inr a \<and>
             FinalScore (alog a) = 0.3 + 0.4 * j \<and>
             CoderError (alog a) = (case coderError c of None \<Rightarrow> [] | Some e \<Rightarrow> e) \<and>
             TestResult (alog a) =
               (if coderError c = None
                then \<lparr>Ran = False, Passed = True, Category = ''not_run'',
                      Summary = ''no recognized test command at repository root''\<rparr>
                else \<lparr>Ran = False, Passed = True, Category = ''not_run'',
                      Summary = ''coder session failed before test run''\<rparr>)"
  using assms
  by (simp add: runAttempt_def demoAttemptEnv_def demoCfg_def demoH_def JudgeRealism_def
      CombineRealism_def clamp01_def Let_def TrimSpace_Nil RunBestEffortTests_def)

lemma selectBest_single: "selectBest [a] = 0"
  by (simp add: selectBest_def)

lemma demo_iteration:
  assumes "0 \<le> j" "j \<le> 1"
  shows "\<exists>st' stop. iteration (demoCfg m t) U demoH target [] intents (demoIter c j) iter st = Inr (st', stop) \<and>
           IterationBestScore (last (st_iterations st')) = 0.3 + 0.4 * j"
proof -
  obtain d where p: "generateCandidatePool (demoCfg m t) U demoH (genv (demoIter c j)) (st_promptHistory st) [] intents = ([d], False)"
    and v: "valid d" and cd: "candidate d = \<lparr>CandidatePrompt = demoPrompt, Rationale = [], ScopeHints = []\<rparr>"
    using demo_pool by blast
  obtain a where a: "runAttempt (demoCfg m t) U demoH target iter 0 d (demoAttemptEnv c j) = Inr a"
    and fs: "FinalScore (alog a) = 0.3 + 0.4 * j"
    using demo_attempt[OF assms cd] by blast
  have sc: "sortOutcome (demoIter c j) [d] = [d]" and ae: "aenv (demoIter c j) 0 = demoAttemptEnv c j"
    by (simp_all add: demoIter_def)
  have cb: "CoderRunsPerIter (demoCfg m t) = 1" by (simp add: demoCfg_def)
  have rc: "runCandidates (demoCfg m t) U demoH target [] intents (demoIter c j) iter (st_promptHistory st)
          = Inr ([log d], st_promptHistory st @ [demoPrompt], [d], [a])"
    by (simp add: runCandidates_def p v cd sc ae cb minInt_def a Let_def)
  let ?r = "advance (demoCfg m t) iter st [log d] (st_promptHistory st @ [demoPrompt]) [a]"
  have it: "iteration (demoCfg m t) U demoH target [] intents (demoIter c j) iter st = Inr (fst ?r, snd ?r)"
    by (simp add: iteration_def rc)
  have "IterationBestScore (last (st_iterations (fst ?r))) = 0.3 + 0.4 * j"
    by (simp add: advance_iterations selectBest_single fs)
  then show ?thesis using it by blast
qed

section \<open>Best tracking and stop conditions\<close>

lemma demoScript_range:
  assumes "list_all (\<lambda>j. 0 \<le> j \<and> j \<le> 1) js"
  shows "0 \<le> demoScript js k \<and> demoScript js k \<le> 1"
  using assms by (auto simp: demoScript_def list_all_length)

lemma demo_run:
  assumes "list_all (\<lambda>j. 0 \<le> j \<and> j \<le> 1) js"
  shows "\<exists>st'. iterLoop (demoCfg m t) U demoH demoSnapshot [] intents (iterations (demoEnv js)) n iter st = Inr st' \<and>
           summary st' = specLoop t (\<lambda>k. 0.3 + 0.4 * demoScript js k) n iter (summary st)"
proof -
  have th: "Threshold (demoCfg m t) = t" by (simp add: demoCfg_def)
  have "\<And>iter st. \<exists>st' stop.
      iteration (demoCfg m t) U demoH demoSnapshot [] intents (iterations (demoEnv js) iter) iter st = Inr (st', stop) \<and>
      IterationBestScore (last (st_iterations st')) = 0.3 + 0.4 * demoScript js iter"
    using demo_iteration[of "demoScript js k" for k] demoScript_range[OF assms]
    by (simp add: demoEnv_def)
  from simulation[of "demoCfg m t" U demoH demoSnapshot "[]" intents "iterations (demoEnv js)"
      "\<lambda>k. 0.3 + 0.4 * demoScript js k", OF this, of n iter st]
  show ?thesis unfolding th .
qed

lemma summary_initial:
  "summary initialState =
     \<lparr>sBestIteration = 0, sBestFinal = - 1, sNoImprovement = 0,
      sStoppedReason = ''max-iters reached'', sScores = []\<rparr>"
  by (simp add: summary_def initialState_def)

lemma Execute_summary:
  assumes "Execute cfg U H I env = Inr (res, rl)"
  shows "\<exists>cm target st'. startup env = Inr (cm, target) \<and>
           iterLoop cfg U H target cm (I target) (iterations env) (nat (MaxIters cfg)) 1 initialState = Inr st' \<and>
           BestIteration res = bestIteration (st_best st') \<and>
           BestFinalScore res = bestFinal (st_best st') \<and>
           logBestIteration rl = bestIteration (st_best st') \<and>
           Iterations rl = st_iterations st' \<and>
           StoppedReason rl = st_stoppedReason st'"
  using assms
  by (auto simp: Execute_def split: sum.splits prod.splits if_splits option.splits)

lemma demo_Execute:
  assumes "list_all (\<lambda>j. 0 \<le> j \<and> j \<le> 1) js"
    and "nat m = n"
    and "specLoop t (\<lambda>k. 0.3 + 0.4 * demoScript js k) n 1 (summary initialState) = a"
    and "sBestIteration a \<noteq> 0"
  shows "\<exists>res rl. Execute (demoCfg m t) U demoH I (demoEnv js) = Inr (res, rl) \<and>
           BestIteration res = sBestIteration a \<and> BestFinalScore res = sBestFinal a \<and>
           logBestIteration rl = sBestIteration a \<and> StoppedReason rl = sStoppedReason a \<and>
           map IterationBestScore (Iterations rl) = sScores a"
proof -
  obtain st' where l: "iterLoop (demoCfg m t) U demoH demoSnapshot [] (I demoSnapshot) (iterations (demoEnv js)) n 1 initialState = Inr st'"
    and s: "summary st' = a"
    using demo_run[OF assms(1), of m t U "I demoSnapshot" n 1 initialState] assms(3) by auto
  have nz: "bestIteration (st_best st') \<noteq> 0"
    using assms(4) s[symmetric] by (simp add: summary_def)
  have mi: "nat (MaxIters (demoCfg m t)) = n" using assms(2) by (simp add: demoCfg_def)
  have su: "startup (demoEnv js) = Inr ([], demoSnapshot)"
    and ar: "artifactErr (demoEnv js) = None"
    by (simp_all add: demoEnv_def)
  have "Execute (demoCfg m t) U demoH I (demoEnv js) =
      Inr (\<lparr>BestIteration = bestIteration (st_best st'),
                            BestTechSimilarity = bestTech (st_best st'),
                            BestRealism = bestRealism (st_best st'),
                            BestFinalScore = bestFinal (st_best st')\<rparr>,
                           \<lparr>logAlpha = Alpha (demoCfg m t), logThreshold = Threshold (demoCfg m t),
                            logMaxIters = MaxIters (demoCfg m t),
                            logBestIteration = bestIteration (st_best st'),
                            Iterations = st_iterations st',
                            StoppedReason = st_stoppedReason st',
                            CommitMessage = []\<rparr>)"
    by (simp add: Execute_def su ar mi l nz)
  then show ?thesis using s[symmetric] by (auto simp: summary_def)
qed

lemma demo_scores_5:
  "specLoop (9/10) (\<lambda>k. 0.3 + 0.4 * demoScript [0, 0, 3/4, 1/2, 3/4] k) 5 1 (summary initialState)
    = \<lparr>sBestIteration = 3, sBestFinal = 0.6, sNoImprovement = 2,
      sStoppedReason = ''max-iters reached'', sScores = [0.3, 0.3, 0.6, 0.5, 0.6]\<rparr>"
  by (simp add: summary_initial specStep_def numeral_eq_Suc Let_def demoScript_def)


lemma specStep_best:
  "sBestIteration (fst (specStep thr iter s a)) = (if s > sBestFinal a then iter else sBestIteration a)"
  "sBestFinal (fst (specStep thr iter s a)) = (if s > sBestFinal a then s else sBestFinal a)"
  by (simp_all add: specStep_def Let_def)

lemma specStep_threshold:
  "s \<ge> thr \<Longrightarrow> snd (specStep thr iter s a) \<and>
     sStoppedReason (fst (specStep thr iter s a)) = ''threshold reached''"
  by (simp add: specStep_def Let_def)

lemma specStep_noImprovement:
  "\<not> s > sBestFinal a \<Longrightarrow> s < thr \<Longrightarrow>
     sNoImprovement (fst (specStep thr iter s a)) = sNoImprovement a + 1 \<and>
     sBestFinal (fst (specStep thr iter s a)) = sBestFinal a \<and>
     sBestIteration (fst (specStep thr iter s a)) = sBestIteration a \<and>
     snd (specStep thr iter s a) = (sNoImprovement a + 1 \<ge> 3) \<and>
     sStoppedReason (fst (specStep thr iter s a)) =
       (if sNoImprovement a + 1 \<ge> 3 then ''no improvement for 3 iterations''
        else sStoppedReason a)"
  by (simp add: specStep_def Let_def)

lemma replayStops_threshold:
  "replayStops thr iter a ss \<Longrightarrow> k < length ss \<Longrightarrow> ss ! k \<ge> thr \<Longrightarrow>
     Suc k = length ss \<and> sStoppedReason (replay thr iter a ss) = ''threshold reached''"
proof (induction thr iter a ss arbitrary: k rule: replayStops.induct)
  case (1 threshold iter a)
  then show ?case by simp
next
  case (2 threshold iter a s)
  then show ?case using specStep_threshold[of threshold s iter a] by simp
next
  case (3 threshold iter a s v va)
  show ?case
  proof (cases k)
    case 0
    then have "s \<ge> threshold" using "3.prems" by simp
    then have "snd (specStep threshold iter s a)" using specStep_threshold by blast
    then show ?thesis using "3.prems"(1) by simp
  next
    case (Suc k')
    have "Suc k' = length (v # va) \<and>
       sStoppedReason (replay threshold (iter + 1) (fst (specStep threshold iter s a)) (v # va)) = ''threshold reached''"
      using "3.IH"[of k'] "3.prems" Suc by simp
    then show ?thesis using Suc by simp
  qed
qed

lemma loop_best_monotone:
  "iterLoop cfg U H target cm intents env n iter st = Inr st' \<Longrightarrow>
     st_best st' = st_best st \<or> bestFinal (st_best st') > bestFinal (st_best st)"
proof (induction n arbitrary: iter st)
  case 0
  then show ?case by simp
next
  case (Suc n)
  from Suc.prems obtain st1 stop where
    it: "iteration cfg U H target cm intents (env iter) iter st = Inr (st1, stop)"
    by (auto split: sum.splits)
  obtain dl h as where a: "advance cfg iter st dl h as = (st1, stop)"
    using iteration_Inr[OF it] by blast
  have st1: "st1 = fst (advance cfg iter st dl h as)" using a by simp
  have one: "st_best st1 = st_best st \<or> bestFinal (st_best st1) > bestFinal (st_best st)"
    unfolding st1 advance_best by simp
  show ?case
  proof (cases stop)
    case True
    then show ?thesis using Suc.prems it one by simp
  next
    case False
    then have "iterLoop cfg U H target cm intents env n (iter + 1) st1 = Inr st'"
      using Suc.prems it by simp
    from Suc.IH[OF this] one show ?thesis by auto
  qed
qed

text \<open>
  C1. The global best is replaced only by a strictly greater final score. In an iteration
  that completes, the best attempt \<open>as ! selectBest as\<close> replaces the global best
  (iteration index, prompt, patch, scores) exactly when its final score is strictly
  greater than the current best final score; on a tie or a lower score the global best is
  unchanged. Over any number of iterations the global best either stays or its final
  score grows strictly. A run whose log shows the iteration-best scores
  \<open>[0.3, 0.3, 0.6, 0.5, 0.6]\<close> ends with the best of iteration 3 and final score 0.6:
  iterations 4 and 5 did not replace it.
\<close>

theorem C1_global_best:
  "(iteration cfg U H target cm intents ienv iter st = Inr (st', stop) \<longrightarrow>
      (\<exists>as. as \<noteq> [] \<and>
         CoderAttempts (last (st_iterations st')) = map alog as \<and>
         SelectedAttempt (last (st_iterations st')) = int (selectBest as) \<and>
         IterationBestScore (last (st_iterations st')) = FinalScore (alog (as ! selectBest as)) \<and>
         st_best st' =
           (if FinalScore (alog (as ! selectBest as)) > bestFinal (st_best st)
            then \<lparr>bestIteration = iter,
                  bestPrompt = attemptPrompt (alog (as ! selectBest as)),
                  bestPatch = Patch (produced (as ! selectBest as)),
                  bestTech = Score (Tech (alog (as ! selectBest as))),
                  bestRealism = RealismScore (Realism (alog (as ! selectBest as))),
                  bestFinal = FinalScore (alog (as ! selectBest as))\<rparr>
            else st_best st))) \<and>
   (iterLoop cfg U H target cm intents env n iter st = Inr st2 \<longrightarrow>
      st_best st2 = st_best st \<or> bestFinal (st_best st2) > bestFinal (st_best st)) \<and>
   (Execute cfg U H I renv = Inr (res, rl) \<and>
    map IterationBestScore (Iterations rl) = [0.3, 0.3, 0.6, 0.5, 0.6] \<longrightarrow>
      BestIteration res = 3 \<and> BestFinalScore res = 0.6 \<and> logBestIteration rl = 3)"
proof -
  have p1: "\<exists>as. as \<noteq> [] \<and>
         CoderAttempts (last (st_iterations st')) = map alog as \<and>
         SelectedAttempt (last (st_iterations st')) = int (selectBest as) \<and>
         IterationBestScore (last (st_iterations st')) = FinalScore (alog (as ! selectBest as)) \<and>
         st_best st' =
           (if FinalScore (alog (as ! selectBest as)) > bestFinal (st_best st)
            then \<lparr>bestIteration = iter,
                  bestPrompt = attemptPrompt (alog (as ! selectBest as)),
                  bestPatch = Patch (produced (as ! selectBest as)),
                  bestTech = Score (Tech (alog (as ! selectBest as))),
                  bestRealism = RealismScore (Realism (alog (as ! selectBest as))),
                  bestFinal = FinalScore (alog (as ! selectBest as))\<rparr>
            else st_best st)"
    if it: "iteration cfg U H target cm intents ienv iter st = Inr (st', stop)"
  proof -
    obtain dl h as where ne: "as \<noteq> []" and a: "advance cfg iter st dl h as = (st', stop)"
      using iteration_Inr[OF it] by blast
    have st': "st' = fst (advance cfg iter st dl h as)" using a by simp
    show ?thesis
      unfolding st'
      by (intro exI[of _ as]) (simp add: ne advance_iterations advance_best)
  qed
  have p2: "st_best st2 = st_best st \<or> bestFinal (st_best st2) > bestFinal (st_best st)"
    if "iterLoop cfg U H target cm intents env n iter st = Inr st2"
    using that by (rule loop_best_monotone)
  have p3: "BestIteration res = 3 \<and> BestFinalScore res = 0.6 \<and> logBestIteration rl = 3"
    if both: "Execute cfg U H I renv = Inr (res, rl) \<and>
      map IterationBestScore (Iterations rl) = [0.3, 0.3, 0.6, 0.5, 0.6]"
  proof -
    have ex: "Execute cfg U H I renv = Inr (res, rl)"
      and sc: "map IterationBestScore (Iterations rl) = [0.3, 0.3, 0.6, 0.5, 0.6]"
      using both by simp_all
    obtain c t s where
      l: "iterLoop cfg U H t c (I t) (iterations renv) (nat (MaxIters cfg)) 1 initialState = Inr s"
      and r: "BestIteration res = bestIteration (st_best s)"
        "BestFinalScore res = bestFinal (st_best s)"
        "logBestIteration rl = bestIteration (st_best s)"
        "Iterations rl = st_iterations s"
      using Execute_summary[OF ex] by blast
    obtain new where n: "st_iterations s = st_iterations initialState @ new"
      and rp: "summary s = replay (Threshold cfg) 1 (summary initialState) (map IterationBestScore new)"
      using loop_replay[OF l] by blast
    have "new = st_iterations s" using n by (simp add: initialState_def)
    then have sc': "map IterationBestScore new = [0.3, 0.3, 0.6, 0.5, 0.6]"
      using sc r(4) by simp
    have "sBestIteration (summary s) = 3 \<and> sBestFinal (summary s) = 0.6"
      unfolding rp sc' by (simp add: specStep_best summary_initial)
    then show ?thesis using r by (simp add: summary_def)
  qed
  show ?thesis
    by (rule conjI[OF impI[OF p1] conjI[OF impI[OF p2] impI[OF p3]]])
qed


theorem C1_global_best_witness:
  "\<exists>st' stop res rl.
     iteration (demoCfg 5 (9/10)) (\<lambda>s. s) demoH demoSnapshot [] [] (demoIter (CoderDone []) 0) 1
       initialState = Inr (st', stop) \<and>
     bestIteration (st_best st') = 1 \<and> bestFinal (st_best st') = 0.3 \<and>
     Execute (demoCfg 5 (9/10)) (\<lambda>s. s) demoH (\<lambda>t. []) (demoEnv [0, 0, 3/4, 1/2, 3/4]) = Inr (res, rl) \<and>
     map IterationBestScore (Iterations rl) = [0.3, 0.3, 0.6, 0.5, 0.6] \<and>
     BestIteration res = 3 \<and> BestFinalScore res = 0.6 \<and> logBestIteration rl = 3"
proof -
  obtain st' stop where it: "iteration (demoCfg 5 (9/10)) (\<lambda>s. s) demoH demoSnapshot [] []
       (demoIter (CoderDone []) 0) 1 initialState = Inr (st', stop)"
    and sc: "IterationBestScore (last (st_iterations st')) = 0.3 + 0.4 * 0"
    using demo_iteration[of 0 5 "9/10" "\<lambda>s. s" demoSnapshot "[]" "CoderDone []" 1 initialState]
    by auto
  obtain res rl where ex: "Execute (demoCfg 5 (9/10)) (\<lambda>s. s) demoH (\<lambda>t. []) (demoEnv [0, 0, 3/4, 1/2, 3/4]) = Inr (res, rl)"
    and scores: "map IterationBestScore (Iterations rl) = [0.3, 0.3, 0.6, 0.5, 0.6]"
    using demo_Execute[OF _ _ demo_scores_5, where m = 5 and U = "\<lambda>s. s" and I = "\<lambda>t. []"]
    by auto
  note c1 = C1_global_best[where cfg = "demoCfg 5 (9/10)" and U = "\<lambda>s. s" and H = demoH
      and target = demoSnapshot and cm = "[]" and intents = "[]"
      and ienv = "demoIter (CoderDone []) 0" and iter = 1 and st = initialState and st' = st'
      and stop = stop and I = "\<lambda>t. []" and renv = "demoEnv [0, 0, 3/4, 1/2, 3/4]"
      and res = res and rl = rl]
  obtain as where "IterationBestScore (last (st_iterations st')) = FinalScore (alog (as ! selectBest as))"
    and "st_best st' =
           (if FinalScore (alog (as ! selectBest as)) > bestFinal (st_best initialState)
            then \<lparr>bestIteration = 1,
                  bestPrompt = attemptPrompt (alog (as ! selectBest as)),
                  bestPatch = Patch (produced (as ! selectBest as)),
                  bestTech = Score (Tech (alog (as ! selectBest as))),
                  bestRealism = RealismScore (Realism (alog (as ! selectBest as))),
                  bestFinal = FinalScore (alog (as ! selectBest as))\<rparr>
            else st_best initialState)"
    using c1[THEN conjunct1, THEN mp, OF it] by blast
  then have b: "bestIteration (st_best st') = 1 \<and> bestFinal (st_best st') = 0.3"
    using sc by (simp add: initialState_def)
  have "BestIteration res = 3 \<and> BestFinalScore res = 0.6 \<and> logBestIteration rl = 3"
    by (rule c1[THEN conjunct2, THEN conjunct2, THEN mp], intro conjI, rule ex, rule scores)
  then show ?thesis
    using it b ex scores
    by (intro exI[of _ st'] exI[of _ stop] exI[of _ res] exI[of _ rl]) simp
qed

lemma iteration_step:
  assumes "iteration cfg U H target cm intents ienv iter st = Inr (st', stop)"
  shows "st_best st' = st_best st \<or> IterationBestScore (last (st_iterations st')) > bestFinal (st_best st)"
    and "st_noImprovement st' =
      (if IterationBestScore (last (st_iterations st')) > bestFinal (st_best st) then 0
       else st_noImprovement st + 1)"
    and "stop = (IterationBestScore (last (st_iterations st')) \<ge> Threshold cfg \<or> st_noImprovement st' \<ge> 3)"
    and "st_stoppedReason st' =
      (if IterationBestScore (last (st_iterations st')) \<ge> Threshold cfg then ''threshold reached''
       else if st_noImprovement st' \<ge> 3 then ''no improvement for 3 iterations''
       else st_stoppedReason st)"
proof -
  obtain dl h as where a: "advance cfg iter st dl h as = (st', stop)"
    using iteration_Inr[OF assms] by blast
  have st': "st' = fst (advance cfg iter st dl h as)" and stop: "stop = snd (advance cfg iter st dl h as)"
    using a by simp_all
  show "st_best st' = st_best st \<or> IterationBestScore (last (st_iterations st')) > bestFinal (st_best st)"
    unfolding st' by (simp add: advance_iterations advance_best)
  show "st_noImprovement st' =
      (if IterationBestScore (last (st_iterations st')) > bestFinal (st_best st) then 0
       else st_noImprovement st + 1)"
    unfolding st' by (simp add: advance_iterations advance_noImprovement)
  show "stop = (IterationBestScore (last (st_iterations st')) \<ge> Threshold cfg \<or> st_noImprovement st' \<ge> 3)"
    unfolding st' stop by (simp add: advance_iterations advance_stop)
  show "st_stoppedReason st' =
      (if IterationBestScore (last (st_iterations st')) \<ge> Threshold cfg then ''threshold reached''
       else if st_noImprovement st' \<ge> 3 then ''no improvement for 3 iterations''
       else st_stoppedReason st)"
    unfolding st' by (simp add: advance_iterations advance_reason)
qed

text \<open>
  C3. When the best attempt of an iteration has a final score greater than or equal to
  the threshold (equality included), the loop stops at that iteration with the stop reason
  "threshold reached", however many iterations are left; and in the log of a run that
  returns, an iteration whose best score reaches the threshold is the last one and the
  recorded stop reason is "threshold reached".
\<close>

theorem C3_threshold_reached:
  "(iteration cfg U H target cm intents (env iter) iter st = Inr (st', stop) \<and>
    IterationBestScore (last (st_iterations st')) \<ge> Threshold cfg \<longrightarrow>
      stop \<and> st_stoppedReason st' = ''threshold reached'' \<and>
      iterLoop cfg U H target cm intents env (Suc n) iter st = Inr st') \<and>
   (Execute cfg U H I renv = Inr (res, rl) \<and> k < length (Iterations rl) \<and>
    IterationBestScore (Iterations rl ! k) \<ge> Threshold cfg \<longrightarrow>
      Suc k = length (Iterations rl) \<and> StoppedReason rl = ''threshold reached'')"
proof -
  have p1: "stop \<and> st_stoppedReason st' = ''threshold reached'' \<and>
      iterLoop cfg U H target cm intents env (Suc n) iter st = Inr st'"
    if h: "iteration cfg U H target cm intents (env iter) iter st = Inr (st', stop) \<and>
      IterationBestScore (last (st_iterations st')) \<ge> Threshold cfg"
  proof -
    have it: "iteration cfg U H target cm intents (env iter) iter st = Inr (st', stop)"
      and ge: "IterationBestScore (last (st_iterations st')) \<ge> Threshold cfg"
      using h by simp_all
    have "stop" using iteration_step(3)[OF it] ge by simp
    moreover have "st_stoppedReason st' = ''threshold reached''"
      using iteration_step(4)[OF it] ge by simp
    ultimately show ?thesis using it by simp
  qed
  have p2: "Suc k = length (Iterations rl) \<and> StoppedReason rl = ''threshold reached''"
    if h: "Execute cfg U H I renv = Inr (res, rl) \<and> k < length (Iterations rl) \<and>
      IterationBestScore (Iterations rl ! k) \<ge> Threshold cfg"
  proof -
    have ex: "Execute cfg U H I renv = Inr (res, rl)" and k: "k < length (Iterations rl)"
      and ge: "IterationBestScore (Iterations rl ! k) \<ge> Threshold cfg"
      using h by simp_all
    obtain c t s where
      l: "iterLoop cfg U H t c (I t) (iterations renv) (nat (MaxIters cfg)) 1 initialState = Inr s"
      and r: "Iterations rl = st_iterations s" "StoppedReason rl = st_stoppedReason s"
      using Execute_summary[OF ex] by blast
    obtain new where n: "st_iterations s = st_iterations initialState @ new"
      and rp: "summary s = replay (Threshold cfg) 1 (summary initialState) (map IterationBestScore new)"
      and rs: "replayStops (Threshold cfg) 1 (summary initialState) (map IterationBestScore new)"
      using loop_replay[OF l] by blast
    have new: "new = Iterations rl" using n r(1) by (simp add: initialState_def)
    have "Suc k = length (map IterationBestScore new) \<and>
       sStoppedReason (replay (Threshold cfg) 1 (summary initialState) (map IterationBestScore new)) = ''threshold reached''"
      by (rule replayStops_threshold[OF rs]) (use k ge new in simp_all)
    then show ?thesis using rp[symmetric] r(2) new by (simp add: summary_def)
  qed
  show ?thesis by (rule conjI[OF impI[OF p1] impI[OF p2]])
qed

lemma demo_scores_threshold:
  "specLoop (6/10) (\<lambda>k. 0.3 + 0.4 * demoScript [0, 0, 3/4, 1/2, 3/4] k) 8 1 (summary initialState)
    = \<lparr>sBestIteration = 3, sBestFinal = 0.6, sNoImprovement = 0,
      sStoppedReason = ''threshold reached'', sScores = [0.3, 0.3, 0.6]\<rparr>"
  by (simp add: summary_initial specStep_def numeral_eq_Suc Let_def demoScript_def)

theorem C3_threshold_reached_witness:
  "\<exists>st' res rl.
     iteration (demoCfg 8 (6/10)) (\<lambda>s. s) demoH demoSnapshot [] []
       (iterations (demoEnv [0, 0, 3/4, 1/2, 3/4]) 3) 3 initialState = Inr (st', True) \<and>
     IterationBestScore (last (st_iterations st')) = 0.6 \<and>
     Threshold (demoCfg 8 (6/10)) = 0.6 \<and>
     st_stoppedReason st' = ''threshold reached'' \<and>
     iterLoop (demoCfg 8 (6/10)) (\<lambda>s. s) demoH demoSnapshot [] []
       (iterations (demoEnv [0, 0, 3/4, 1/2, 3/4])) (Suc 5) 3 initialState = Inr st' \<and>
     Execute (demoCfg 8 (6/10)) (\<lambda>s. s) demoH (\<lambda>t. []) (demoEnv [0, 0, 3/4, 1/2, 3/4]) = Inr (res, rl) \<and>
     map IterationBestScore (Iterations rl) = [0.3, 0.3, 0.6] \<and>
     length (Iterations rl) = 3 \<and> StoppedReason rl = ''threshold reached''"
proof -
  let ?env = "demoEnv [0, 0, 3/4, 1/2, 3/4]"
  have e3: "iterations ?env 3 = demoIter (CoderDone []) (3/4)"
    by (simp add: demoEnv_def demoScript_def)
  obtain st' stop where it: "iteration (demoCfg 8 (6/10)) (\<lambda>s. s) demoH demoSnapshot [] []
       (iterations ?env 3) 3 initialState = Inr (st', stop)"
    and sc: "IterationBestScore (last (st_iterations st')) = 0.6"
    using demo_iteration[of "3/4" 8 "6/10" "\<lambda>s. s" demoSnapshot "[]" "CoderDone []" 3 initialState]
    unfolding e3 by auto
  have th: "Threshold (demoCfg 8 (6/10)) = 0.6" by (simp add: demoCfg_def)
  obtain res rl where ex: "Execute (demoCfg 8 (6/10)) (\<lambda>s. s) demoH (\<lambda>t. []) ?env = Inr (res, rl)"
    and scores: "map IterationBestScore (Iterations rl) = [0.3, 0.3, 0.6]"
    using demo_Execute[OF _ _ demo_scores_threshold, where m = 8 and U = "\<lambda>s. s" and I = "\<lambda>t. []"]
    by auto
  have len: "length (Iterations rl) = 3"
    using arg_cong[OF scores, of length] by simp
  have k2: "IterationBestScore (Iterations rl ! 2) = 0.6"
    using arg_cong[OF scores, of "\<lambda>xs. xs ! 2"] len by simp
  note c3 = C3_threshold_reached[where cfg = "demoCfg 8 (6/10)" and U = "\<lambda>s. s" and H = demoH
      and target = demoSnapshot and cm = "[]" and intents = "[]"
      and env = "iterations ?env" and iter = 3 and st = initialState and st' = st'
      and stop = stop and n = 5 and I = "\<lambda>t. []" and renv = ?env
      and res = res and rl = rl and k = 2]
  have a: "stop \<and> st_stoppedReason st' = ''threshold reached'' \<and>
      iterLoop (demoCfg 8 (6/10)) (\<lambda>s. s) demoH demoSnapshot [] [] (iterations ?env) (Suc 5) 3 initialState = Inr st'"
    by (rule c3[THEN conjunct1, THEN mp], intro conjI, rule it, simp add: sc demoCfg_def)
  have b: "Suc 2 = length (Iterations rl) \<and> StoppedReason rl = ''threshold reached''"
    by (rule c3[THEN conjunct2, THEN mp], intro conjI, rule ex, simp add: len, simp add: k2 demoCfg_def)
  have it': "iteration (demoCfg 8 (6/10)) (\<lambda>s. s) demoH demoSnapshot [] []
       (iterations ?env 3) 3 initialState = Inr (st', True)"
    using it a by simp
  show ?thesis
    using it' a b sc th ex scores len
    by (intro exI[of _ st'] exI[of _ res] exI[of _ rl]) simp
qed

end
